theory Spec2Isabelle
  imports Main "HOL-Library.Word" "HOL-Library.Char_ord" "HOL-Library.List_Lexorder"
begin

unbundle bit_operations_syntax

section \<open>Values, errors and outcomes\<close>

text \<open>
  The server of this development is the \<open>RedisServer\<close> of the repository: the store
  facade of \<open>badger.go\<close>, the Bloom record codec, the Bloom and Cuckoo filter handlers and
  the command table of \<open>run\<close>. The libraries it calls (badger, bloom and bitset,
  cuckoofilter, redeo, \<open>encoding/binary\<close>, \<open>strconv\<close>) are modelled as far as the
  handlers depend on them.

  Go byte slices and strings are both byte sequences; \<open>char\<close> is the 8-bit byte.
  Go's \<open>uint\<close> is the 64-bit machine word, and a \<open>float64\<close> is carried as its IEEE-754
  bit pattern (the only thing \<open>encoding/binary\<close> looks at).
\<close>

type_synonym bytes = string
type_synonym uint64 = "64 word"
type_synonym float64 = "64 word"

datatype error =
    ErrKeyNotFound                \<comment> \<open>badger.ErrKeyNotFound\<close>
  | ErrEmptyKey                   \<comment> \<open>badger.ErrEmptyKey\<close>
  | ErrKeyExists                  \<comment> \<open>badger.go: "key already exists"\<close>
  | StoreFault string             \<comment> \<open>any other engine-level read error\<close>
  | EOF                           \<comment> \<open>io.EOF\<close>
  | ErrUnexpectedEOF              \<comment> \<open>io.ErrUnexpectedEOF\<close>
  | NotFixedSize                  \<comment> \<open>binary.Write on a value that is not fixed-size\<close>
  | InvalidType                   \<comment> \<open>binary.Read into a value that is not fixed-size\<close>
  | ErrSyntax string              \<comment> \<open>strconv.ErrSyntax\<close>
  | ErrRange string               \<comment> \<open>strconv.ErrRange\<close>
  | CuckooNotMultiple nat         \<comment> \<open>cuckoo.Decode: length not a multiple of the bucket size\<close>
  | CuckooEmpty                   \<comment> \<open>cuckoo.Decode: empty input\<close>
  | Joined "error list"           \<comment> \<open>errors.Join of the non-nil errors\<close>

text \<open>A call either returns or panics (a run-time panic unwinds through the handler).\<close>

datatype 'a outcome = Return 'a | Panic string

section \<open>The store (badger, as the facade uses it)\<close>

text \<open>
  The store is an external collaborator. It is modelled as its committed entries in
  ascending key order, together with the keys whose read currently fails at engine level
  (\<open>faults\<close>), so that what the facade does with a failed read can be stated.
  One client at a time: a transaction never meets a conflicting one.
\<close>

record DB =
  kv :: "(bytes \<times> bytes) list"
  faults :: "(bytes \<times> error) list"

fun upsert :: "bytes \<Rightarrow> bytes \<Rightarrow> (bytes \<times> bytes) list \<Rightarrow> (bytes \<times> bytes) list" where
  "upsert k v [] = [(k, v)]"
| "upsert k v ((k', v') # xs) =
     (if k = k' then (k, v) # xs
      else if k < k' then (k, v) # (k', v') # xs
      else (k', v') # upsert k v xs)"

text \<open>\<open>txn.Get\<close>: the item (here its value) or an error, never both.\<close>

definition txn_Get :: "DB \<Rightarrow> bytes \<Rightarrow> error + bytes" where
  "txn_Get txn key =
     (if key = [] then Inl ErrEmptyKey
      else case map_of (faults txn) key of
             Some e \<Rightarrow> Inl e
           | None \<Rightarrow> (case map_of (kv txn) key of
                         None \<Rightarrow> Inl ErrKeyNotFound
                       | Some v \<Rightarrow> Inr v))"

definition txn_Set :: "DB \<Rightarrow> bytes \<Rightarrow> bytes \<Rightarrow> error option \<times> DB" where
  "txn_Set txn key val =
     (if key = [] then (Some ErrEmptyKey, txn)
      else (None, txn\<lparr>kv := upsert key val (kv txn)\<rparr>))"

definition txn_Delete :: "DB \<Rightarrow> bytes \<Rightarrow> error option \<times> DB" where
  "txn_Delete txn key =
     (if key = [] then (Some ErrEmptyKey, txn)
      else (None, txn\<lparr>kv := filter (\<lambda>(k, v). k \<noteq> key) (kv txn)\<rparr>))"

text \<open>\<open>db.Update\<close> commits the transaction iff the closure returns no error.\<close>

definition db_Update :: "DB \<Rightarrow> (DB \<Rightarrow> error option \<times> DB) \<Rightarrow> error option \<times> DB" where
  "db_Update db fn = (case fn db of (Some e, _) \<Rightarrow> (Some e, db) | (None, txn) \<Rightarrow> (None, txn))"

text \<open>
  \<open>db.Update\<close> around a closure that may panic and that writes variables it captured
  (the state \<open>'s\<close>): a panic unwinds through \<open>db.Update\<close>, whose deferred discard drops
  the transaction.
\<close>

definition db_Update_closure ::
  "DB \<Rightarrow> (DB \<Rightarrow> ((error option \<times> DB) \<times> 's) outcome) \<Rightarrow> ((error option \<times> DB) \<times> 's) outcome" where
  "db_Update_closure db fn =
     (case fn db of
        Panic p \<Rightarrow> Panic p
      | Return (r, st) \<Rightarrow> Return (db_Update db (\<lambda>_. r), st))"

text \<open>\<open>errors.Join\<close>: nil when every error is nil.\<close>

definition errors_Join :: "error option list \<Rightarrow> error option" where
  "errors_Join errs =
     (case List.map_filter id errs of [] \<Rightarrow> None | e # es \<Rightarrow> Some (Joined (e # es)))"

section \<open>badger.go: the store facade\<close>

definition Delete :: "DB \<Rightarrow> bytes \<Rightarrow> error option \<times> DB" where
  "Delete db key = db_Update db (\<lambda>txn. txn_Delete txn key)"

fun DeleteBulk_loop :: "DB \<Rightarrow> bytes list \<Rightarrow> error option list \<Rightarrow> error option list \<times> DB" where
  "DeleteBulk_loop txn [] errs = (errs, txn)"
| "DeleteBulk_loop txn (key # keys) errs =
     (case txn_Delete txn key of
        (Some err, txn') \<Rightarrow> DeleteBulk_loop txn' keys (errs @ [Some err])
      | (None, txn') \<Rightarrow> DeleteBulk_loop txn' keys errs)"

definition DeleteBulk :: "DB \<Rightarrow> bytes list \<Rightarrow> error option \<times> DB" where
  "DeleteBulk db keys =
     db_Update db (\<lambda>txn. case DeleteBulk_loop txn keys [] of
                            (errs, txn') \<Rightarrow> (errors_Join errs, txn'))"

definition InsertExclusive :: "DB \<Rightarrow> bytes \<Rightarrow> bytes \<Rightarrow> error option \<times> DB" where
  "InsertExclusive db key val =
     db_Update db (\<lambda>txn.
       case txn_Get txn key of
         Inr existing \<Rightarrow> (Some ErrKeyExists, txn)
       | Inl _ \<Rightarrow> txn_Set txn key val)"

definition Insert :: "DB \<Rightarrow> bytes \<Rightarrow> bytes \<Rightarrow> error option \<times> DB" where
  "Insert db key val = db_Update db (\<lambda>txn. txn_Set txn key val)"

text \<open>\<open>InsertBulk\<close> indexes \<open>entries[i+1]\<close>: an odd number of entries panics.\<close>

fun InsertBulk_loop :: "DB \<Rightarrow> bytes list \<Rightarrow> error option list \<Rightarrow> (error option list \<times> DB) outcome" where
  "InsertBulk_loop txn [] errs = Return (errs, txn)"
| "InsertBulk_loop txn [key] errs = Panic ''index out of range''"
| "InsertBulk_loop txn (key # val # entries) errs =
     (case txn_Set txn key val of (err, txn') \<Rightarrow> InsertBulk_loop txn' entries (errs @ [err]))"

definition InsertBulk :: "DB \<Rightarrow> bytes list \<Rightarrow> (error option \<times> DB) outcome" where
  "InsertBulk db entries =
     (case db_Update_closure db (\<lambda>txn.
             case InsertBulk_loop txn entries [] of
               Panic p \<Rightarrow> Panic p
             | Return (errs, txn') \<Rightarrow> Return ((errors_Join errs, txn'), ())) of
        Panic p \<Rightarrow> Panic p
      | Return (r, u) \<Rightarrow> Return r)"

definition Get :: "DB \<Rightarrow> bytes \<Rightarrow> error + bytes" where
  "Get db key = (case txn_Get db key of Inl err \<Rightarrow> Inl err | Inr item \<Rightarrow> Inr item)"

fun GetList_loop :: "DB \<Rightarrow> bytes list \<Rightarrow> bytes list \<Rightarrow> error + bytes list" where
  "GetList_loop txn [] vals = Inr vals"
| "GetList_loop txn (key # keys) vals =
     (case txn_Get txn key of
        Inl err \<Rightarrow> Inl err
      | Inr item \<Rightarrow> GetList_loop txn keys (vals @ [item]))"

definition GetList :: "DB \<Rightarrow> bytes list \<Rightarrow> error + bytes list" where
  "GetList db keys = GetList_loop db keys []"

text \<open>
  \<open>UpdateFunc\<close>. The error of \<open>fn\<close> is assigned to \<open>err\<close> and handed to \<open>item.Value\<close>,
  whose return value is dropped; the transaction closure then returns what
  \<open>txn.Set(key, result)\<close> returns.
\<close>

definition UpdateFunc ::
  "DB \<Rightarrow> bytes \<Rightarrow> (bytes \<Rightarrow> 's \<Rightarrow> ((bytes \<times> error option) \<times> 's) outcome) \<Rightarrow> 's
     \<Rightarrow> ((error option \<times> DB) \<times> 's) outcome" where
  "UpdateFunc db key fn st =
     db_Update_closure db (\<lambda>txn.
       case txn_Get txn key of
         Inl err \<Rightarrow> Return ((Some err, txn), st)
       | Inr val \<Rightarrow>
           (case fn val st of
              Panic p \<Rightarrow> Panic p
            | Return ((result, err), st') \<Rightarrow> Return (txn_Set txn key result, st')))"

text \<open>Key enumeration: all keys in ascending order, or those with the given prefix.\<close>

definition WalkKeys :: "DB \<Rightarrow> (bytes \<Rightarrow> 's \<Rightarrow> error option \<times> 's) \<Rightarrow> 's \<Rightarrow> error option \<times> 's" where
  "WalkKeys db fn st =
     (case foldl (\<lambda>(errs, s) key. case fn key s of (e, s') \<Rightarrow> (errs @ [e], s'))
                 ([], st) (map fst (kv db)) of
        (errs, st') \<Rightarrow> (errors_Join errs, st'))"

definition WalkKeysPrefix ::
  "DB \<Rightarrow> bytes \<Rightarrow> (bytes \<Rightarrow> 's \<Rightarrow> error option \<times> 's) \<Rightarrow> 's \<Rightarrow> error option \<times> 's" where
  "WalkKeysPrefix db pfx fn st =
     (case foldl (\<lambda>(errs, s) key. case fn key s of (e, s') \<Rightarrow> (errs @ [e], s'))
                 ([], st)
                 (takeWhile (\<lambda>k. take (length pfx) k = pfx)
                    (dropWhile (\<lambda>k. k < pfx) (map fst (kv db)))) of
        (errs, st') \<Rightarrow> (errors_Join errs, st'))"

section \<open>Commands and replies (the frontend's interface)\<close>

record Command =
  Name :: string
  Args :: "bytes list"

definition ArgN :: "Command \<Rightarrow> nat" where
  "ArgN c = length (Args c)"

text \<open>\<open>c.Arg(n)\<close> is the empty argument when \<open>n\<close> is out of range.\<close>

definition Arg :: "Command \<Rightarrow> nat \<Rightarrow> bytes" where
  "Arg c n = (if n < length (Args c) then Args c ! n else [])"

datatype errmsg =
    WrongNumberOfArgs string     \<comment> \<open>\<open>redeo.WrongNumberOfArgs(c.Name)\<close>\<close>
  | UnknownCommand string        \<comment> \<open>\<open>redeo.UnknownCommand(c.Name)\<close>\<close>
  | ErrorText error              \<comment> \<open>\<open>err.Error()\<close>\<close>
  | UnsupportedArgs "bytes list" \<comment> \<open>"unsupported number of arguments: ..."\<close>

text \<open>What a handler appends to the response writer, in order.\<close>

datatype reply =
    AppendError errmsg
  | AppendInt int
  | AppendOK
  | AppendArrayLen nat
  | AppendBulk bytes
  | AppendNil

section \<open>encoding/binary and io, as the codec uses them\<close>

text \<open>Big-endian bytes of a number, most significant first, and their value.\<close>

fun be_bytes :: "nat \<Rightarrow> nat \<Rightarrow> bytes" where
  "be_bytes 0 n = []"
| "be_bytes (Suc w) n = be_bytes w (n div 256) @ [char_of (n mod 256)]"

definition be_value :: "bytes \<Rightarrow> nat" where
  "be_value bs = foldl (\<lambda>acc c. acc * 256 + of_char c) 0 bs"

definition PutUint64_BE :: "uint64 \<Rightarrow> bytes" where
  "PutUint64_BE v = be_bytes 8 (unat v)"

definition Uint64_BE :: "bytes \<Rightarrow> uint64" where
  "Uint64_BE bs = of_nat (be_value bs)"

definition PutUint64_LE :: "uint64 \<Rightarrow> bytes" where
  "PutUint64_LE v = rev (be_bytes 8 (unat v))"

definition Uint64_LE :: "bytes \<Rightarrow> uint64" where
  "Uint64_LE bs = of_nat (be_value (rev bs))"

text \<open>
  A \<open>bytes.Reader\<close> is its unread remainder. \<open>io.ReadFull\<close> of \<open>n\<close> bytes consumes what is
  there; short input is \<open>io.EOF\<close> when nothing was read, \<open>io.ErrUnexpectedEOF\<close> otherwise.
\<close>

definition io_ReadFull :: "bytes \<Rightarrow> nat \<Rightarrow> (error + bytes) \<times> bytes" where
  "io_ReadFull reader n =
     (if n \<le> length reader then (Inr (take n reader), drop n reader)
      else if reader = [] then (Inl EOF, [])
      else (Inl ErrUnexpectedEOF, []))"

text \<open>
  \<open>binary.Write\<close> and \<open>binary.Read\<close> accept fixed-size values only. Go's \<open>uint\<close> is not one
  (its width is platform-dependent): \<open>Write\<close> returns an error and writes nothing, \<open>Read\<close>
  returns an error, consumes nothing and leaves the variable as it was.
  Each function returns the error and the buffer (or the variable and the reader) after
  the call.
\<close>

definition binary_Write_uint :: "bytes \<Rightarrow> uint64 \<Rightarrow> error option \<times> bytes" where
  "binary_Write_uint buf v = (Some NotFixedSize, buf)"

definition binary_Read_uint :: "bytes \<Rightarrow> uint64 \<Rightarrow> error option \<times> uint64 \<times> bytes" where
  "binary_Read_uint reader var = (Some InvalidType, var, reader)"

definition binary_Write_float64_LE :: "bytes \<Rightarrow> float64 \<Rightarrow> error option \<times> bytes" where
  "binary_Write_float64_LE buf v = (None, buf @ PutUint64_LE v)"

definition binary_Read_float64_LE :: "bytes \<Rightarrow> float64 \<Rightarrow> error option \<times> float64 \<times> bytes" where
  "binary_Read_float64_LE reader var =
     (case io_ReadFull reader 8 of
        (Inl err, reader') \<Rightarrow> (Some err, var, reader')
      | (Inr bs, reader') \<Rightarrow> (None, Uint64_LE bs, reader'))"

definition binary_Write_uint64_BE :: "bytes \<Rightarrow> uint64 \<Rightarrow> error option \<times> bytes" where
  "binary_Write_uint64_BE buf v = (None, buf @ PutUint64_BE v)"

definition binary_Read_uint64_BE :: "bytes \<Rightarrow> (error + uint64) \<times> bytes" where
  "binary_Read_uint64_BE reader =
     (case io_ReadFull reader 8 of
        (Inl err, reader') \<Rightarrow> (Inl err, reader')
      | (Inr bs, reader') \<Rightarrow> (Inr (Uint64_BE bs), reader'))"

section \<open>The Bloom filter engine (bits-and-blooms/bloom v3 over bitset)\<close>

text \<open>
  The engine is an external library, used through construct, test, add, cardinality and
  serialise. Its bit array, its stream format and its test-or-add loop are modelled as
  the library has them; what it computes in floating point or by hashing is a parameter
  of the model (record \<open>engine\<close>), so every theorem holds for any such functions.
\<close>

record BitSet =
  blength :: uint64          \<comment> \<open>\<open>length\<close>: number of bits\<close>
  bset :: "uint64 list"      \<comment> \<open>\<open>set\<close>: the words\<close>

record BloomFilter =
  bf_m :: uint64
  bf_k :: uint64
  bf_b :: BitSet

record CuckooFilter =
  cf_buckets :: "bytes list"   \<comment> \<open>each bucket holds 4 one-byte fingerprints\<close>
  cf_count :: uint64
  cf_bucketPow :: uint64

record engine =
  EstimateParameters :: "uint64 \<Rightarrow> float64 \<Rightarrow> uint64 \<times> uint64"
    \<comment> \<open>\<open>bloom.EstimateParameters(n, p)\<close>: bit count and hash count, floating point\<close>
  baseHashes :: "bytes \<Rightarrow> nat \<Rightarrow> uint64"
    \<comment> \<open>the four 64-bit hashes \<open>h[0..3]\<close> of a member\<close>
  ApproximatedSize :: "BloomFilter \<Rightarrow> 32 word"
    \<comment> \<open>cardinality estimate, floating point\<close>
  ParseFloat :: "string \<Rightarrow> error + float64"
    \<comment> \<open>\<open>strconv.ParseFloat(s, 32)\<close>\<close>
  cuckoo_Lookup :: "CuckooFilter \<Rightarrow> bytes \<Rightarrow> bool"
  cuckoo_InsertUnique :: "CuckooFilter \<Rightarrow> bytes \<Rightarrow> bool \<times> CuckooFilter"
    \<comment> \<open>hashing and eviction of the cuckoo engine\<close>
  builtin :: "string \<Rightarrow> Command \<Rightarrow> reply list"
    \<comment> \<open>what the frontend's own \<open>ping\<close>, \<open>echo\<close> and \<open>info\<close> handlers write\<close>

text \<open>\<open>wordsNeeded\<close>: words that hold \<open>i\<close> bits (64 bits a word).\<close>

definition wordsNeeded :: "uint64 \<Rightarrow> nat" where
  "wordsNeeded i =
     (if i > (- 1) - 64 + 1 then unat (drop_bit 6 (- 1 :: uint64))
      else unat (drop_bit 6 (i + 63)))"

definition BitSet_New :: "uint64 \<Rightarrow> BitSet" where
  "BitSet_New len = \<lparr>blength = len, bset = replicate (wordsNeeded len) 0\<rparr>"

text \<open>\<open>Test\<close> and \<open>Set\<close> index the word array; beyond it Go panics.\<close>

definition BitSet_Test :: "BitSet \<Rightarrow> uint64 \<Rightarrow> bool outcome" where
  "BitSet_Test b i =
     (if i \<ge> blength b then Return False
      else if unat (drop_bit 6 i) < length (bset b)
      then Return (bit (bset b ! unat (drop_bit 6 i)) (unat (i AND 63)))
      else Panic ''index out of range'')"

definition extendSet :: "BitSet \<Rightarrow> uint64 \<Rightarrow> BitSet" where
  "extendSet b i =
     (let nsize = wordsNeeded (i + 1)
      in \<lparr>blength = i + 1,
          bset = (if length (bset b) < nsize
                  then bset b @ replicate (nsize - length (bset b)) 0
                  else take nsize (bset b))\<rparr>)"

definition BitSet_Set :: "BitSet \<Rightarrow> uint64 \<Rightarrow> BitSet outcome" where
  "BitSet_Set b i =
     (let b = (if i \<ge> blength b then extendSet b i else b);
          j = unat (drop_bit 6 i)
      in if j < length (bset b)
         then Return (b\<lparr>bset := (bset b)[j := (bset b ! j) OR push_bit (unat (i AND 63)) 1]\<rparr>)
         else Panic ''index out of range'')"

text \<open>
  The bit sets the library builds (\<open>New\<close>, \<open>Set\<close>, \<open>ReadFrom\<close>) hold exactly the words
  their length needs.
\<close>

definition BitSet_ok :: "BitSet \<Rightarrow> bool" where
  "BitSet_ok b \<longleftrightarrow> length (bset b) = wordsNeeded (blength b)"

definition bloom_New :: "uint64 \<Rightarrow> uint64 \<Rightarrow> BloomFilter" where
  "bloom_New m k = \<lparr>bf_m = max 1 m, bf_k = max 1 k, bf_b = BitSet_New m\<rparr>"

definition NewWithEstimates :: "engine \<Rightarrow> uint64 \<Rightarrow> float64 \<Rightarrow> BloomFilter" where
  "NewWithEstimates E n fp = (case EstimateParameters E n fp of (m, k) \<Rightarrow> bloom_New m k)"

text \<open>\<open>location\<close>: the \<open>i\<close>-th bit position, reduced modulo \<open>m\<close> (a zero \<open>m\<close> divides by zero).\<close>

definition location :: "(nat \<Rightarrow> uint64) \<Rightarrow> uint64 \<Rightarrow> uint64" where
  "location h ii = h (unat (ii mod 2)) + ii * h (2 + unat (((ii + (ii mod 2)) mod 4) div 2))"

definition bloom_location :: "BloomFilter \<Rightarrow> (nat \<Rightarrow> uint64) \<Rightarrow> uint64 \<Rightarrow> uint64 outcome" where
  "bloom_location f h i =
     (if bf_m f = 0 then Panic ''integer divide by zero''
      else Return (location h i mod bf_m f))"

text \<open>\<open>Test\<close>: false at the first hash position whose bit is clear.\<close>

fun Test_loop :: "BloomFilter \<Rightarrow> (nat \<Rightarrow> uint64) \<Rightarrow> nat list \<Rightarrow> bool outcome" where
  "Test_loop f h [] = Return True"
| "Test_loop f h (i # rest) =
     (case bloom_location f h (of_nat i) of
        Panic p \<Rightarrow> Panic p
      | Return l \<Rightarrow>
          (case BitSet_Test (bf_b f) l of
             Panic p \<Rightarrow> Panic p
           | Return t \<Rightarrow> if \<not> t then Return False else Test_loop f h rest))"

definition bloom_Test :: "engine \<Rightarrow> BloomFilter \<Rightarrow> bytes \<Rightarrow> bool outcome" where
  "bloom_Test E f data = Test_loop f (baseHashes E data) [0..<unat (bf_k f)]"

text \<open>
  \<open>TestOrAdd\<close>: for each hash position, if the bit is clear then \<open>present\<close> becomes false
  and the bit is set. It returns \<open>present\<close>: whether the member was there before the call.
\<close>

fun TestOrAdd_loop ::
  "(nat \<Rightarrow> uint64) \<Rightarrow> nat list \<Rightarrow> bool \<Rightarrow> BloomFilter \<Rightarrow> (bool \<times> BloomFilter) outcome" where
  "TestOrAdd_loop h [] present f = Return (present, f)"
| "TestOrAdd_loop h (i # rest) present f =
     (case bloom_location f h (of_nat i) of
        Panic p \<Rightarrow> Panic p
      | Return l \<Rightarrow>
          (case BitSet_Test (bf_b f) l of
             Panic p \<Rightarrow> Panic p
           | Return t \<Rightarrow>
               if \<not> t then
                 (case BitSet_Set (bf_b f) l of
                    Panic p \<Rightarrow> Panic p
                  | Return b' \<Rightarrow> TestOrAdd_loop h rest False (f\<lparr>bf_b := b'\<rparr>))
               else TestOrAdd_loop h rest present f))"

definition TestOrAdd :: "engine \<Rightarrow> BloomFilter \<Rightarrow> bytes \<Rightarrow> (bool \<times> BloomFilter) outcome" where
  "TestOrAdd E f data = TestOrAdd_loop (baseHashes E data) [0..<unat (bf_k f)] True f"

text \<open>
  The stream format: the bit set is its length and then its words, the filter is
  \<open>m\<close>, \<open>k\<close> and then the bit set; all numbers 64-bit big-endian.
\<close>

definition BitSet_WriteTo :: "BitSet \<Rightarrow> bytes \<Rightarrow> error option \<times> bytes" where
  "BitSet_WriteTo b buf =
     (case binary_Write_uint64_BE buf (blength b) of
        (Some err, buf) \<Rightarrow> (Some err, buf)
      | (None, buf) \<Rightarrow> (None, buf @ concat (map PutUint64_BE (bset b))))"

fun Uint64s_BE :: "nat \<Rightarrow> bytes \<Rightarrow> uint64 list" where
  "Uint64s_BE 0 bs = []"
| "Uint64s_BE (Suc n) bs = Uint64_BE (take 8 bs) # Uint64s_BE n (drop 8 bs)"

definition BitSet_ReadFrom :: "bytes \<Rightarrow> (error + BitSet) \<times> bytes" where
  "BitSet_ReadFrom reader =
     (case binary_Read_uint64_BE reader of
        (Inl err, reader) \<Rightarrow> (Inl ErrUnexpectedEOF, reader)
      | (Inr len, reader) \<Rightarrow>
          (let nWords = wordsNeeded len
           in case io_ReadFull reader (8 * nWords) of
                (Inl err, reader) \<Rightarrow> (Inl ErrUnexpectedEOF, reader)
              | (Inr bs, reader) \<Rightarrow>
                  (Inr \<lparr>blength = len, bset = Uint64s_BE nWords bs\<rparr>, reader)))"

definition bloom_WriteTo :: "BloomFilter \<Rightarrow> bytes \<Rightarrow> error option \<times> bytes" where
  "bloom_WriteTo f buf =
     (case binary_Write_uint64_BE buf (bf_m f) of
        (Some err, buf) \<Rightarrow> (Some err, buf)
      | (None, buf) \<Rightarrow>
          (case binary_Write_uint64_BE buf (bf_k f) of
             (Some err, buf) \<Rightarrow> (Some err, buf)
           | (None, buf) \<Rightarrow> BitSet_WriteTo (bf_b f) buf))"

definition bloom_ReadFrom :: "BloomFilter \<Rightarrow> bytes \<Rightarrow> (error + BloomFilter) \<times> bytes" where
  "bloom_ReadFrom f reader =
     (case binary_Read_uint64_BE reader of
        (Inl err, reader) \<Rightarrow> (Inl err, reader)
      | (Inr m, reader) \<Rightarrow>
          (case binary_Read_uint64_BE reader of
             (Inl err, reader) \<Rightarrow> (Inl err, reader)
           | (Inr k, reader) \<Rightarrow>
               (case BitSet_ReadFrom reader of
                  (Inl err, reader) \<Rightarrow> (Inl err, reader)
                | (Inr b, reader) \<Rightarrow> (Inr (f\<lparr>bf_m := m, bf_k := k, bf_b := b\<rparr>), reader))))"

section \<open>The Bloom record codec\<close>

definition bloomToBytes :: "BloomFilter \<Rightarrow> uint64 \<Rightarrow> float64 \<Rightarrow> error + bytes" where
  "bloomToBytes fltr capacity errorRate =
     (let blob = [];
          blob = snd (binary_Write_uint blob capacity);
          blob = snd (binary_Write_float64_LE blob errorRate)
      in case bloom_WriteTo fltr blob of
           (Some err, _) \<Rightarrow> Inl err
         | (None, blob) \<Rightarrow> Inr blob)"

definition bloomFromBytes :: "engine \<Rightarrow> bytes \<Rightarrow> error + (BloomFilter \<times> uint64 \<times> float64)" where
  "bloomFromBytes E blob =
     (let capacity = 0;
          errorRate = 0;
          reader = blob;
          (_, capacity, reader) = binary_Read_uint reader capacity;
          (_, errorRate, reader) = binary_Read_float64_LE reader errorRate;
          fltr = NewWithEstimates E capacity errorRate
      in case bloom_ReadFrom fltr reader of
           (Inl err, _) \<Rightarrow> Inl err
         | (Inr fltr, _) \<Rightarrow> Inr (fltr, capacity, errorRate))"

section \<open>The Cuckoo filter engine (seiflotfy/cuckoofilter)\<close>

definition getNextPow2 :: "uint64 \<Rightarrow> uint64" where
  "getNextPow2 n =
     (let n = n - 1;
          n = n OR drop_bit 1 n;
          n = n OR drop_bit 2 n;
          n = n OR drop_bit 4 n;
          n = n OR drop_bit 8 n;
          n = n OR drop_bit 16 n;
          n = n OR drop_bit 32 n
      in n + 1)"

definition TrailingZeros :: "uint64 \<Rightarrow> nat" where
  "TrailingZeros x = length (takeWhile (\<lambda>i. \<not> bit x i) [0..<64])"

definition cuckoo_NewFilter :: "uint64 \<Rightarrow> CuckooFilter" where
  "cuckoo_NewFilter capacity =
     (let capacity = getNextPow2 capacity div 4;
          capacity = (if capacity = 0 then 1 else capacity)
      in \<lparr>cf_buckets = replicate (unat capacity) (replicate 4 (CHR 0x00)),
          cf_count = 0,
          cf_bucketPow = of_nat (TrailingZeros capacity)\<rparr>)"

definition cuckoo_Encode :: "CuckooFilter \<Rightarrow> bytes" where
  "cuckoo_Encode cf = concat (cf_buckets cf)"

fun buckets_of :: "nat \<Rightarrow> bytes \<Rightarrow> bytes list" where
  "buckets_of 0 bs = []"
| "buckets_of (Suc n) bs = take 4 bs # buckets_of n (drop 4 bs)"

text \<open>\<open>Decode\<close> rejects a length that is not a multiple of 4 and an empty input.\<close>

definition cuckoo_Decode :: "bytes \<Rightarrow> error + CuckooFilter" where
  "cuckoo_Decode bs =
     (if length bs mod 4 \<noteq> 0 then Inl (CuckooNotMultiple (length bs))
      else if length bs = 0 then Inl CuckooEmpty
      else Inr \<lparr>cf_buckets = buckets_of (length bs div 4) bs,
               cf_count = of_nat (length (filter (\<lambda>c. c \<noteq> CHR 0x00) bs)),
               cf_bucketPow = of_nat (TrailingZeros (of_nat (length bs div 4)))\<rparr>)"

definition cuckoo_Count :: "CuckooFilter \<Rightarrow> uint64" where
  "cuckoo_Count cf = cf_count cf"

section \<open>strconv.ParseUint(s, 10, 32)\<close>

fun ParseUint_loop :: "string \<Rightarrow> string \<Rightarrow> nat \<Rightarrow> error + nat" where
  "ParseUint_loop s0 [] n = Inr n"
| "ParseUint_loop s0 (c # cs) n =
     (if CHR ''0'' \<le> c \<and> c \<le> CHR ''9'' then
        (let n1 = n * 10 + (of_char c - 48)
         in if n1 > 4294967295 then Inl (ErrRange s0) else ParseUint_loop s0 cs n1)
      else Inl (ErrSyntax s0))"

definition ParseUint :: "string \<Rightarrow> error + uint64" where
  "ParseUint s =
     (if s = [] then Inl (ErrSyntax s)
      else case ParseUint_loop s s 0 of Inl err \<Rightarrow> Inl err | Inr n \<Rightarrow> Inr (of_nat n))"

section \<open>The Bloom filter handlers\<close>

text \<open>
  A handler returns what it appended to the response writer and the store after it, or
  panics. The \<open>switch\<close> of \<open>BfInsert\<close> either returns from the handler (\<open>Inl\<close>, with what
  was appended) or falls out of the switch (\<open>Inr\<close>) with what was appended so far and the
  capacity and error rate it set; its \<open>default\<close> branch appends an error and falls out.
  In the branch for 5 and 6 arguments the source parses the capacity once more before it
  compares the token (that first result is overwritten), and tests \<open>err\<close> once more after
  the \<open>ERROR\<close> token (it is nil there); neither appears below.
\<close>

definition BfInsert_switch :: "engine \<Rightarrow> Command \<Rightarrow> reply list + (reply list \<times> uint64 \<times> float64)" where
  "BfInsert_switch E c =
     (let n = ArgN c in
      if n = 1 then Inr ([], 1000000, 0x3F847AE147AE147B)
      else if n = 2 then Inl [AppendError (WrongNumberOfArgs (Name c))]
      else if n = 3 then
        (if Arg c 1 \<noteq> ''capacity'' \<and> Arg c 1 \<noteq> ''CAPACITY''
         then Inl [AppendError (WrongNumberOfArgs (Name c))]
         else case ParseUint (Arg c 2) of
                Inl err \<Rightarrow> Inl [AppendError (ErrorText err)]
              | Inr capacity \<Rightarrow> Inr ([], capacity, 0))
      else if n = 4 then Inl [AppendError (WrongNumberOfArgs (Name c))]
      else if n = 6 \<or> n = 5 then
        (if Arg c 1 \<noteq> ''capacity'' \<and> Arg c 1 \<noteq> ''CAPACITY''
         then Inl [AppendError (WrongNumberOfArgs (Name c))]
         else case ParseUint (Arg c 2) of
                Inl err \<Rightarrow> Inl [AppendError (ErrorText err)]
              | Inr capacity \<Rightarrow>
                  if Arg c 3 \<noteq> ''error'' \<and> Arg c 3 \<noteq> ''ERROR''
                  then Inl [AppendError (WrongNumberOfArgs (Name c))]
                  else (case ParseFloat E (Arg c 4) of
                          Inl err \<Rightarrow> Inl [AppendError (ErrorText err)]
                        | Inr errorRate \<Rightarrow> Inr ([], capacity, errorRate)))
      else Inr ([AppendError (UnsupportedArgs (Args c))], 0, 0))"

definition BfInsert :: "engine \<Rightarrow> DB \<Rightarrow> Command \<Rightarrow> (reply list \<times> DB) outcome" where
  "BfInsert E db c =
     (if ArgN c < 1 then Return ([AppendError (WrongNumberOfArgs (Name c))], db)
      else case BfInsert_switch E c of
             Inl w \<Rightarrow> Return (w, db)
           | Inr (w, capacity, errorRate) \<Rightarrow>
               (let fltr = NewWithEstimates E capacity errorRate
                in case bloomToBytes fltr capacity errorRate of
                     Inl err \<Rightarrow> Return (w @ [AppendError (ErrorText err)], db)
                   | Inr blob \<Rightarrow>
                       (case InsertExclusive db (Arg c 0) blob of
                          (Some err, db') \<Rightarrow> Return (w @ [AppendError (ErrorText err)], db')
                        | (None, db') \<Rightarrow> Return (w @ [AppendArrayLen 1, AppendInt 1], db'))))"

text \<open>The closure of \<open>BfAdd\<close>; its state is the captured variable \<open>added\<close>.\<close>

definition BfAdd_fn :: "engine \<Rightarrow> Command \<Rightarrow> bytes \<Rightarrow> bool \<Rightarrow> ((bytes \<times> error option) \<times> bool) outcome" where
  "BfAdd_fn E c val added =
     (case bloomFromBytes E val of
        Inl err \<Rightarrow> Return (([], Some err), added)
      | Inr (fltr, capacity, errRate) \<Rightarrow>
          (case TestOrAdd E fltr (Arg c 1) of
             Panic p \<Rightarrow> Panic p
           | Return (added, fltr) \<Rightarrow>
               (case bloomToBytes fltr capacity errRate of
                  Inl err \<Rightarrow> Return (([], Some err), added)
                | Inr result \<Rightarrow> Return ((result, None), added))))"

definition BfAdd :: "engine \<Rightarrow> DB \<Rightarrow> Command \<Rightarrow> (reply list \<times> DB) outcome" where
  "BfAdd E db c =
     (if ArgN c \<noteq> 2 then Return ([AppendError (WrongNumberOfArgs (Name c))], db)
      else case UpdateFunc db (Arg c 0) (BfAdd_fn E c) False of
             Panic p \<Rightarrow> Panic p
           | Return ((Some err, db'), added) \<Rightarrow> Return ([AppendError (ErrorText err)], db')
           | Return ((None, db'), added) \<Rightarrow>
               if added then Return ([AppendInt 1], db') else Return ([AppendInt 0], db'))"

text \<open>
  \<open>BfCard\<close> overwrites the error of \<open>Get\<close> with that of \<open>bloomFromBytes\<close>; after a failed
  \<open>Get\<close> the value is nil.
\<close>

definition BfCard :: "engine \<Rightarrow> DB \<Rightarrow> Command \<Rightarrow> (reply list \<times> DB) outcome" where
  "BfCard E db c =
     (if ArgN c \<noteq> 1 then Return ([AppendError (WrongNumberOfArgs (Name c))], db)
      else let val = (case Get db (Arg c 0) of Inl err \<Rightarrow> [] | Inr v \<Rightarrow> v)
           in case bloomFromBytes E val of
                Inl err \<Rightarrow> Return ([AppendError (ErrorText err)], db)
              | Inr (fltr, _, _) \<Rightarrow> Return ([AppendInt (uint (ApproximatedSize E fltr))], db))"

definition BfExists :: "engine \<Rightarrow> DB \<Rightarrow> Command \<Rightarrow> (reply list \<times> DB) outcome" where
  "BfExists E db c =
     (if ArgN c \<noteq> 2 then Return ([AppendError (WrongNumberOfArgs (Name c))], db)
      else case Get db (Arg c 0) of
             Inl err \<Rightarrow> Return ([AppendError (ErrorText err)], db)
           | Inr val \<Rightarrow>
               (case bloomFromBytes E val of
                  Inl err \<Rightarrow> Return ([AppendError (ErrorText err)], db)
                | Inr (fltr, _, _) \<Rightarrow>
                    (case bloom_Test E fltr (Arg c 1) of
                       Panic p \<Rightarrow> Panic p
                     | Return t \<Rightarrow> if t then Return ([AppendInt 1], db) else Return ([AppendInt 0], db))))"

section \<open>The Cuckoo filter handlers\<close>

definition CfInsert :: "engine \<Rightarrow> DB \<Rightarrow> Command \<Rightarrow> (reply list \<times> DB) outcome" where
  "CfInsert E db c =
     (if ArgN c < 1 \<or> ArgN c > 3 then Return ([AppendError (WrongNumberOfArgs (Name c))], db)
      else
        (let sw = (if ArgN c = 1 then Inr 1000000
                   else if ArgN c = 2 then Inl [AppendError (WrongNumberOfArgs (Name c))]
                   else if Arg c 1 \<noteq> ''capacity'' \<and> Arg c 1 \<noteq> ''CAPACITY''
                   then Inl [AppendError (WrongNumberOfArgs (Name c))]
                   else case ParseUint (Arg c 2) of
                          Inl err \<Rightarrow> Inl [AppendError (ErrorText err)]
                        | Inr capacity \<Rightarrow> Inr capacity)
         in case sw of
              Inl w \<Rightarrow> Return (w, db)
            | Inr capacity \<Rightarrow>
                (let fltr = cuckoo_NewFilter capacity
                 in case InsertExclusive db (Arg c 0) (cuckoo_Encode fltr) of
                      (Some err, db') \<Rightarrow> Return ([AppendError (ErrorText err)], db')
                    | (None, db') \<Rightarrow> Return ([AppendOK], db'))))"

definition CfCard :: "engine \<Rightarrow> DB \<Rightarrow> Command \<Rightarrow> (reply list \<times> DB) outcome" where
  "CfCard E db c =
     (if ArgN c \<noteq> 1 then Return ([AppendError (WrongNumberOfArgs (Name c))], db)
      else let val = (case Get db (Arg c 0) of Inl err \<Rightarrow> [] | Inr v \<Rightarrow> v)
           in case cuckoo_Decode val of
                Inl err \<Rightarrow> Return ([AppendError (ErrorText err)], db)
              | Inr fltr \<Rightarrow> Return ([AppendInt (uint (cuckoo_Count fltr))], db))"

definition CfAdd_fn :: "engine \<Rightarrow> Command \<Rightarrow> bytes \<Rightarrow> bool \<Rightarrow> ((bytes \<times> error option) \<times> bool) outcome" where
  "CfAdd_fn E c val added =
     (case cuckoo_Decode val of
        Inl err \<Rightarrow> Return (([], Some err), added)
      | Inr fltr \<Rightarrow>
          (case cuckoo_InsertUnique E fltr (Arg c 1) of
             (added, fltr) \<Rightarrow> Return ((cuckoo_Encode fltr, None), added)))"

definition CfAdd :: "engine \<Rightarrow> DB \<Rightarrow> Command \<Rightarrow> (reply list \<times> DB) outcome" where
  "CfAdd E db c =
     (if ArgN c \<noteq> 2 then Return ([AppendError (WrongNumberOfArgs (Name c))], db)
      else case UpdateFunc db (Arg c 0) (CfAdd_fn E c) False of
             Panic p \<Rightarrow> Panic p
           | Return ((Some err, db'), added) \<Rightarrow> Return ([AppendError (ErrorText err)], db')
           | Return ((None, db'), added) \<Rightarrow>
               if added then Return ([AppendInt 1], db') else Return ([AppendInt 0], db'))"

definition CfExists :: "engine \<Rightarrow> DB \<Rightarrow> Command \<Rightarrow> (reply list \<times> DB) outcome" where
  "CfExists E db c =
     (if ArgN c \<noteq> 2 then Return ([AppendError (WrongNumberOfArgs (Name c))], db)
      else case Get db (Arg c 0) of
             Inl err \<Rightarrow> Return ([AppendError (ErrorText err)], db)
           | Inr val \<Rightarrow>
               (case cuckoo_Decode val of
                  Inl err \<Rightarrow> Return ([AppendError (ErrorText err)], db)
                | Inr fltr \<Rightarrow>
                    if cuckoo_Lookup E fltr (Arg c 1) then Return ([AppendInt 1], db)
                    else Return ([AppendInt 0], db)))"

section \<open>The key-value handlers and the command table of \<open>run\<close>\<close>

definition handle_del :: "engine \<Rightarrow> DB \<Rightarrow> Command \<Rightarrow> (reply list \<times> DB) outcome" where
  "handle_del E db c =
     (if ArgN c < 1 then Return ([AppendError (WrongNumberOfArgs (Name c))], db)
      else case DeleteBulk db (Args c) of
             (Some err, db') \<Rightarrow> Return ([AppendError (ErrorText err)], db')
           | (None, db') \<Rightarrow> Return ([AppendInt (int (length (Args c)))], db'))"

definition handle_set :: "engine \<Rightarrow> DB \<Rightarrow> Command \<Rightarrow> (reply list \<times> DB) outcome" where
  "handle_set E db c =
     (if ArgN c \<noteq> 2 then Return ([AppendError (WrongNumberOfArgs (Name c))], db)
      else case Insert db (Arg c 0) (Arg c 1) of
             (Some err, db') \<Rightarrow> Return ([AppendError (ErrorText err)], db')
           | (None, db') \<Rightarrow> Return ([AppendOK], db'))"

definition handle_mset :: "engine \<Rightarrow> DB \<Rightarrow> Command \<Rightarrow> (reply list \<times> DB) outcome" where
  "handle_mset E db c =
     (if ArgN c < 2 \<or> ArgN c mod 2 \<noteq> 0 then Return ([AppendError (WrongNumberOfArgs (Name c))], db)
      else case InsertBulk db (Args c) of
             Panic p \<Rightarrow> Panic p
           | Return (Some err, db') \<Rightarrow> Return ([AppendError (ErrorText err)], db')
           | Return (None, db') \<Rightarrow> Return ([AppendOK], db'))"

definition handle_get :: "engine \<Rightarrow> DB \<Rightarrow> Command \<Rightarrow> (reply list \<times> DB) outcome" where
  "handle_get E db c =
     (if ArgN c \<noteq> 1 then Return ([AppendError (WrongNumberOfArgs (Name c))], db)
      else case Get db (Arg c 0) of
             Inr val \<Rightarrow> Return ([AppendBulk val], db)
           | Inl err \<Rightarrow> Return ([AppendNil], db))"

definition handle_mget :: "engine \<Rightarrow> DB \<Rightarrow> Command \<Rightarrow> (reply list \<times> DB) outcome" where
  "handle_mget E db c =
     (if ArgN c < 2 then Return ([AppendError (WrongNumberOfArgs (Name c))], db)
      else case GetList db (Args c) of
             Inl err \<Rightarrow> Return ([AppendError (ErrorText err)], db)
           | Inr vals \<Rightarrow> Return (AppendArrayLen (length vals) # map AppendBulk vals, db))"

definition handle_keys :: "engine \<Rightarrow> DB \<Rightarrow> Command \<Rightarrow> (reply list \<times> DB) outcome" where
  "handle_keys E db c =
     (if ArgN c > 1 then Return ([AppendError (WrongNumberOfArgs (Name c))], db)
      else case (if ArgN c = 0 then WalkKeys db (\<lambda>key keys. (None, keys @ [key])) []
                 else WalkKeysPrefix db (Arg c 0) (\<lambda>key keys. (None, keys @ [key])) []) of
             (Some err, keys) \<Rightarrow> Return ([AppendError (ErrorText err)], db)
           | (None, keys) \<Rightarrow> Return (AppendArrayLen (length keys) # map AppendBulk keys, db))"

text \<open>
  The names \<open>run\<close> registers, in its order. The frontend looks a command up by its
  lower-cased name and answers an unknown name itself, with an error.
\<close>

definition run_handlers ::
  "(string \<times> (engine \<Rightarrow> DB \<Rightarrow> Command \<Rightarrow> (reply list \<times> DB) outcome)) list" where
  "run_handlers =
     [(''ping'', \<lambda>E db c. Return (builtin E ''ping'' c, db)),
      (''echo'', \<lambda>E db c. Return (builtin E ''echo'' c, db)),
      (''info'', \<lambda>E db c. Return (builtin E ''info'' c, db)),
      (''bf.insert'', BfInsert),
      (''bf.add'', BfAdd),
      (''bf.card'', BfCard),
      (''bf.exists'', BfExists),
      (''cf.insert'', CfInsert),
      (''cf.add'', CfAdd),
      (''cf.card'', CfCard),
      (''cf.exists'', CfExists),
      (''del'', handle_del),
      (''set'', handle_set),
      (''mset'', handle_mset),
      (''get'', handle_get),
      (''mget'', handle_mget),
      (''keys'', handle_keys)]"

definition ToLower :: "string \<Rightarrow> string" where
  "ToLower s = map (\<lambda>c. if CHR ''A'' \<le> c \<and> c \<le> CHR ''Z'' then char_of (of_char c + (32 :: nat)) else c) s"

definition serve :: "engine \<Rightarrow> DB \<Rightarrow> Command \<Rightarrow> (reply list \<times> DB) outcome" where
  "serve E db c =
     (case map_of run_handlers (ToLower (Name c)) of
        Some h \<Rightarrow> h E db c
      | None \<Rightarrow> Return ([AppendError (UnknownCommand (Name c))], db))"

section \<open>A concrete engine and store, for evaluating the model\<close>

text \<open>
  A small instance of the external functions: every filter gets 64 bits and 2 hash
  positions, and the hashes of a member are derived from its length.
\<close>

definition engine0 :: engine where
  "engine0 =
     \<lparr>EstimateParameters = (\<lambda>n p. (64, 2)),
      baseHashes = (\<lambda>data i. of_nat (length data + i)),
      ApproximatedSize = (\<lambda>f. 0),
      ParseFloat = (\<lambda>s. Inr 0x3F847AE147AE147B),
      cuckoo_Lookup = (\<lambda>f data. False),
      cuckoo_InsertUnique = (\<lambda>f data. (True, f)),
      builtin = (\<lambda>name c. [AppendOK])\<rparr>"

definition db0 :: DB where
  "db0 = \<lparr>kv = [], faults = []\<rparr>"

section \<open>Facts about the store\<close>

lemma map_of_upsert: "map_of (upsert k v xs) = (map_of xs)(k \<mapsto> v)"
  by (induction xs) (auto simp: fun_eq_iff)

lemma txn_Get_present_nonempty: "txn_Get db key = Inr v \<Longrightarrow> key \<noteq> []"
  by (auto simp: txn_Get_def split: if_splits)

lemma UpdateFunc_present:
  assumes "txn_Get db key = Inr val" and "fn val st = Return ((result, err), st')"
  shows "UpdateFunc db key fn st = Return ((None, db\<lparr>kv := upsert key result (kv db)\<rparr>), st')"
proof -
  from assms(1) have "key \<noteq> []" by (rule txn_Get_present_nonempty)
  with assms show ?thesis
    by (simp add: UpdateFunc_def db_Update_closure_def db_Update_def txn_Set_def)
qed

section \<open>The facade's treatment of errors\<close>

text \<open>
  Claim C3. For a key present in the store, when the mutate function returns a non-nil
  error together with a result value, \<open>UpdateFunc\<close> does not hand that error to its caller:
  it returns nil, the transaction is committed, and a later \<open>Get\<close> of the key yields the
  result value that came with the error.
\<close>

theorem UpdateFunc_discards_mutate_error:
  assumes "txn_Get db key = Inr val" and "fn val st = Return ((result, Some e), st')"
  shows "\<exists>db'. UpdateFunc db key fn st = Return ((None, db'), st') \<and> Get db' key = Inr result"
proof -
  let ?db' = "db\<lparr>kv := upsert key result (kv db)\<rparr>"
  have "UpdateFunc db key fn st = Return ((None, ?db'), st')"
    using assms by (rule UpdateFunc_present)
  moreover have "Get ?db' key = Inr result"
    using assms(1) by (simp add: Get_def txn_Get_def map_of_upsert split: if_splits option.splits)
  ultimately show ?thesis by blast
qed

text \<open>
  The instance of C3 for a filter handler: the closure of \<open>BfAdd\<close> on a stored value that
  is no Bloom record returns nil with its error, and the record is replaced by the empty
  value.
\<close>

theorem UpdateFunc_discards_mutate_error_witness:
  "txn_Get \<lparr>kv = [(''k'', ''junk'')], faults = []\<rparr> ''k'' = Inr ''junk''
   \<and> BfAdd_fn engine0 \<lparr>Name = ''bf.add'', Args = [''k'', ''m'']\<rparr> ''junk'' False = Return (([], Some EOF), False)
   \<and> (\<exists>db'. UpdateFunc \<lparr>kv = [(''k'', ''junk'')], faults = []\<rparr> ''k''
                 (BfAdd_fn engine0 \<lparr>Name = ''bf.add'', Args = [''k'', ''m'']\<rparr>) False
               = Return ((None, db'), False)
             \<and> Get db' ''k'' = Inr [])"
proof -
  have g: "txn_Get \<lparr>kv = [(''k'', ''junk'')], faults = []\<rparr> ''k'' = Inr ''junk''"
    by (simp add: txn_Get_def)
  have f: "BfAdd_fn engine0 \<lparr>Name = ''bf.add'', Args = [''k'', ''m'']\<rparr> ''junk'' False = Return (([], Some EOF), False)"
    by (simp add: BfAdd_fn_def bloomFromBytes_def binary_Read_uint_def binary_Read_float64_LE_def
        io_ReadFull_def bloom_ReadFrom_def binary_Read_uint64_BE_def)
  from UpdateFunc_discards_mutate_error
      [of "\<lparr>kv = [(''k'', ''junk'')], faults = []\<rparr>" "''k''" "''junk''"
          "BfAdd_fn engine0 \<lparr>Name = ''bf.add'', Args = [''k'', ''m'']\<rparr>" False "[]" EOF False]
    g f
  show ?thesis by simp
qed

text \<open>
  Claim C9. For a key present in the store, when the mutate function returns an error,
  \<open>UpdateFunc\<close> still runs the transaction that writes the result value under the key: the
  outcome is that of \<open>txn.Set(key, result)\<close>, and the stored entries are the old ones with
  the key set to the result.
\<close>

theorem UpdateFunc_writes_after_mutate_error:
  assumes "txn_Get db key = Inr val" and "fn val st = Return ((result, Some e), st')"
  shows "UpdateFunc db key fn st = Return (db_Update db (\<lambda>txn. txn_Set txn key result), st')
         \<and> kv (snd (db_Update db (\<lambda>txn. txn_Set txn key result))) = upsert key result (kv db)"
proof -
  from assms(1) have "key \<noteq> []" by (rule txn_Get_present_nonempty)
  with assms show ?thesis
    by (simp add: UpdateFunc_def db_Update_closure_def db_Update_def txn_Set_def)
qed

theorem UpdateFunc_writes_after_mutate_error_witness:
  "txn_Get \<lparr>kv = [(''a'', ''1'')], faults = []\<rparr> ''a'' = Inr ''1''
   \<and> UpdateFunc \<lparr>kv = [(''a'', ''1'')], faults = []\<rparr> ''a''
        (\<lambda>v (n::nat). Return ((''2'', Some (StoreFault ''mutate failed'')), Suc n)) 0
       = Return ((None, \<lparr>kv = [(''a'', ''2'')], faults = []\<rparr>), 1)"
proof -
  have g: "txn_Get \<lparr>kv = [(''a'', ''1'')], faults = []\<rparr> ''a'' = Inr ''1''"
    by (simp add: txn_Get_def)
  from UpdateFunc_writes_after_mutate_error
      [of "\<lparr>kv = [(''a'', ''1'')], faults = []\<rparr>" "''a''" "''1''"
          "\<lambda>v (n::nat). Return ((''2'', Some (StoreFault ''mutate failed'')), Suc n)" 0 "''2''"
          "StoreFault ''mutate failed''" 1] g
  show ?thesis by (simp add: db_Update_def txn_Set_def)
qed

text \<open>
  Claim C10. \<open>InsertExclusive\<close> looks only at whether the check read returned an item.
  Whenever that read fails, with whatever error, no item is returned and
  \<open>InsertExclusive\<close> does exactly what the unconditional \<open>Insert\<close> does: it goes on to
  the write instead of aborting with the read's error.
\<close>

theorem InsertExclusive_ignores_read_error:
  assumes "txn_Get db key = Inl e"
  shows "InsertExclusive db key val = Insert db key val"
  using assms by (simp add: InsertExclusive_def Insert_def db_Update_def)

text \<open>A key that holds a value but whose read faults is overwritten.\<close>

theorem InsertExclusive_ignores_read_error_witness:
  "txn_Get \<lparr>kv = [(''k'', ''old'')], faults = [(''k'', StoreFault ''corrupt read'')]\<rparr> ''k''
     = Inl (StoreFault ''corrupt read'')
   \<and> InsertExclusive \<lparr>kv = [(''k'', ''old'')], faults = [(''k'', StoreFault ''corrupt read'')]\<rparr> ''k'' ''new''
     = (None, \<lparr>kv = [(''k'', ''new'')], faults = [(''k'', StoreFault ''corrupt read'')]\<rparr>)"
proof -
  have g: "txn_Get \<lparr>kv = [(''k'', ''old'')], faults = [(''k'', StoreFault ''corrupt read'')]\<rparr> ''k''
     = Inl (StoreFault ''corrupt read'')"
    by (simp add: txn_Get_def)
  from InsertExclusive_ignores_read_error [OF g, of "''new''"] g
  show ?thesis by (simp add: Insert_def db_Update_def txn_Set_def)
qed

text \<open>
  Claim C5. On a store whose reads of \<open>k\<close> do not fault: once \<open>InsertExclusive k v1\<close> has
  succeeded, a second \<open>InsertExclusive k v2\<close> fails with \<open>ErrKeyExists\<close> and leaves the
  store as it was, and \<open>Get k\<close> still returns \<open>v1\<close>. This holds for every \<open>v1\<close> and \<open>v2\<close>
  (equal or not), the zero-length \<open>v1\<close> included.
\<close>

theorem InsertExclusive_twice:
  assumes "map_of (faults db) k = None" and "InsertExclusive db k v1 = (None, db1)"
  shows "InsertExclusive db1 k v2 = (Some ErrKeyExists, db1) \<and> Get db1 k = Inr v1"
proof -
  from assms(2) have k: "k \<noteq> []" and db1: "db1 = db\<lparr>kv := upsert k v1 (kv db)\<rparr>"
    by (auto simp: InsertExclusive_def db_Update_def txn_Set_def txn_Get_def
        split: sum.splits if_splits option.splits)
  from k assms(1) db1 have g: "txn_Get db1 k = Inr v1"
    by (simp add: txn_Get_def map_of_upsert)
  then show ?thesis
    by (simp add: InsertExclusive_def db_Update_def Get_def)
qed

theorem InsertExclusive_twice_witness:
  "map_of (faults db0) ''k'' = None
   \<and> InsertExclusive db0 ''k'' [] = (None, \<lparr>kv = [(''k'', [])], faults = []\<rparr>)
   \<and> InsertExclusive \<lparr>kv = [(''k'', [])], faults = []\<rparr> ''k'' ''v2''
       = (Some ErrKeyExists, \<lparr>kv = [(''k'', [])], faults = []\<rparr>)
   \<and> Get \<lparr>kv = [(''k'', [])], faults = []\<rparr> ''k'' = Inr []"
proof -
  have a: "map_of (faults db0) ''k'' = None" by (simp add: db0_def)
  have b: "InsertExclusive db0 ''k'' [] = (None, \<lparr>kv = [(''k'', [])], faults = []\<rparr>)"
    by (simp add: InsertExclusive_def db_Update_def txn_Set_def txn_Get_def db0_def)
  from InsertExclusive_twice [OF a b, of "''v2''"] a b show ?thesis by simp
qed

section \<open>Facts about the codec\<close>

lemma length_be_bytes [simp]: "length (be_bytes w n) = w"
  by (induction w arbitrary: n) auto

lemma be_value_snoc: "be_value (bs @ [c]) = be_value bs * 256 + of_char c"
  by (simp add: be_value_def)

lemma be_value_be_bytes: "be_value (be_bytes w n) = n mod 256 ^ w"
proof (induction w arbitrary: n)
  case 0
  show ?case by (simp add: be_value_def)
next
  case (Suc w)
  have "be_value (be_bytes (Suc w) n) = (n div 256 mod 256 ^ w) * 256 + n mod 256"
    by (simp add: be_value_snoc Suc)
  also have "\<dots> = n mod 256 ^ Suc w"
    by (simp add: mod_mult2_eq)
  finally show ?case .
qed

lemma be_value_be_bytes_unat: "(of_nat (be_value (be_bytes 8 (unat v))) :: uint64) = v"
proof -
  have "unat v < 256 ^ 8" using unsigned_less [of v] by simp
  then show ?thesis by (simp add: be_value_be_bytes del: be_bytes.simps)
qed

lemma Uint64_BE_Put [simp]: "Uint64_BE (PutUint64_BE v) = v"
  by (simp add: Uint64_BE_def PutUint64_BE_def be_value_be_bytes_unat)

lemma Uint64_LE_Put [simp]: "Uint64_LE (PutUint64_LE v) = v"
  by (simp add: Uint64_LE_def PutUint64_LE_def be_value_be_bytes_unat)

lemma length_PutUint64_BE [simp]: "length (PutUint64_BE v) = 8"
  by (simp add: PutUint64_BE_def)

lemma length_PutUint64_LE [simp]: "length (PutUint64_LE v) = 8"
  by (simp add: PutUint64_LE_def)

lemma io_ReadFull_prefix: "length a = n \<Longrightarrow> io_ReadFull (a @ rest) n = (Inr a, rest)"
  by (simp add: io_ReadFull_def)

lemma binary_Read_uint64_BE_Put [simp]:
  "binary_Read_uint64_BE (PutUint64_BE v @ rest) = (Inr v, rest)"
  by (simp add: binary_Read_uint64_BE_def io_ReadFull_prefix)

lemma binary_Read_float64_LE_Put [simp]:
  "binary_Read_float64_LE (PutUint64_LE v @ rest) var = (None, v, rest)"
  by (simp add: binary_Read_float64_LE_def io_ReadFull_prefix)

lemma length_concat_Put [simp]: "length (concat (map PutUint64_BE ws)) = 8 * length ws"
  by (induction ws) auto

lemma Uint64s_BE_concat [simp]: "Uint64s_BE (length ws) (concat (map PutUint64_BE ws)) = ws"
  by (induction ws) auto

lemma BitSet_ReadFrom_WriteTo:
  assumes "length (bset b) = wordsNeeded (blength b)"
  shows "BitSet_ReadFrom (PutUint64_BE (blength b) @ concat (map PutUint64_BE (bset b))) = (Inr b, [])"
proof -
  let ?ws = "concat (map PutUint64_BE (bset b))"
  have r: "io_ReadFull ?ws (8 * wordsNeeded (blength b)) = (Inr ?ws, [])"
    using assms io_ReadFull_prefix [of ?ws "8 * wordsNeeded (blength b)" "[]"] by simp
  have u: "Uint64s_BE (wordsNeeded (blength b)) ?ws = bset b"
    using Uint64s_BE_concat [of "bset b"] assms by simp
  show ?thesis by (simp add: BitSet_ReadFrom_def r u)
qed

lemma bloomToBytes_eq:
  "bloomToBytes f cap er =
     Inr (PutUint64_LE er @ PutUint64_BE (bf_m f) @ PutUint64_BE (bf_k f)
            @ PutUint64_BE (blength (bf_b f)) @ concat (map PutUint64_BE (bset (bf_b f))))"
  by (simp add: bloomToBytes_def binary_Write_uint_def binary_Write_float64_LE_def
      bloom_WriteTo_def binary_Write_uint64_BE_def BitSet_WriteTo_def)

lemma bloomFromBytes_bloomToBytes:
  assumes "length (bset (bf_b f)) = wordsNeeded (blength (bf_b f))"
    and "bloomToBytes f cap er = Inr blob"
  shows "bloomFromBytes E blob = Inr (f, 0, er)"
  using assms(2) BitSet_ReadFrom_WriteTo [OF assms(1)]
  by (auto simp: bloomToBytes_eq bloomFromBytes_def binary_Read_uint_def bloom_ReadFrom_def)


lemma TestOrAdd_loop_False:
  "TestOrAdd_loop h js False f = Return (p', f') \<Longrightarrow> p' = False"
proof (induction js arbitrary: f)
  case Nil
  then show ?case by simp
next
  case (Cons i js)
  from Cons.prems obtain l where l: "bloom_location f h (of_nat i) = Return l"
    by (cases "bloom_location f h (of_nat i)") simp_all
  from Cons.prems l obtain t0 where t0: "BitSet_Test (bf_b f) l = Return t0"
    by (cases "BitSet_Test (bf_b f) l") simp_all
  show ?case
  proof (cases t0)
    case True
    with Cons.prems l t0 have "TestOrAdd_loop h js False f = Return (p', f')" by simp
    then show ?thesis by (rule Cons.IH)
  next
    case False
    with Cons.prems l t0 obtain b' where
      "TestOrAdd_loop h js False (f\<lparr>bf_b := b'\<rparr>) = Return (p', f')"
      by (cases "BitSet_Set (bf_b f) l") simp_all
    then show ?thesis by (rule Cons.IH)
  qed
qed

lemma TestOrAdd_loop_Test_loop:
  "TestOrAdd_loop h js p f = Return (p', f') \<Longrightarrow> \<exists>t. Test_loop f h js = Return t \<and> p' = (p \<and> t)"
proof (induction js arbitrary: p f)
  case Nil
  then show ?case by auto
next
  case (Cons i js)
  from Cons.prems obtain l where l: "bloom_location f h (of_nat i) = Return l"
    by (cases "bloom_location f h (of_nat i)") simp_all
  from Cons.prems l obtain t0 where t0: "BitSet_Test (bf_b f) l = Return t0"
    by (cases "BitSet_Test (bf_b f) l") simp_all
  show ?case
  proof (cases t0)
    case True
    with Cons.prems l t0 have "TestOrAdd_loop h js p f = Return (p', f')" by simp
    from Cons.IH [OF this] True l t0 show ?thesis by simp
  next
    case False
    with Cons.prems l t0 obtain b' where "BitSet_Set (bf_b f) l = Return b'"
      and r: "TestOrAdd_loop h js False (f\<lparr>bf_b := b'\<rparr>) = Return (p', f')"
      by (cases "BitSet_Set (bf_b f) l") simp_all
    from TestOrAdd_loop_False [OF r] False l t0 show ?thesis by auto
  qed
qed

lemma TestOrAdd_bloom_Test:
  "TestOrAdd E f data = Return (p, f') \<Longrightarrow> bloom_Test E f data = Return p"
  by (auto simp: TestOrAdd_def bloom_Test_def dest: TestOrAdd_loop_Test_loop)

lemma wordsNeeded_64: "wordsNeeded 64 = 1"
  by (simp add: wordsNeeded_def)

lemma engine0_New: "NewWithEstimates engine0 n p = \<lparr>bf_m = 64, bf_k = 2, bf_b = \<lparr>blength = 64, bset = [0]\<rparr>\<rparr>"
  by (simp add: NewWithEstimates_def engine0_def bloom_New_def BitSet_New_def wordsNeeded_64)

lemma upt_2: "[0..<2] = [0, Suc 0]"
  by (simp add: upt_rec numeral_2_eq_2)

lemma engine0_location_0:
  "bloom_location \<lparr>bf_m = 64, bf_k = 2, bf_b = b\<rparr> (baseHashes engine0 ''x'') 0 = Return 1"
  by (simp add: bloom_location_def location_def engine0_def)

lemma engine0_location_1:
  "bloom_location \<lparr>bf_m = 64, bf_k = 2, bf_b = b\<rparr> (baseHashes engine0 ''x'') 1 = Return 6"
  by (simp add: bloom_location_def location_def engine0_def)

lemma Test_0_1: "BitSet_Test \<lparr>blength = 64, bset = [0]\<rparr> 1 = Return False"
  by (simp add: BitSet_Test_def word_le_nat_alt)

lemma Set_0_1: "BitSet_Set \<lparr>blength = 64, bset = [0]\<rparr> 1 = Return \<lparr>blength = 64, bset = [2]\<rparr>"
  by (simp add: BitSet_Set_def word_le_nat_alt)

lemma Test_2_6: "BitSet_Test \<lparr>blength = 64, bset = [2]\<rparr> 6 = Return False"
  by (simp add: BitSet_Test_def word_le_nat_alt)

lemma Set_2_6: "BitSet_Set \<lparr>blength = 64, bset = [2]\<rparr> 6 = Return \<lparr>blength = 64, bset = [66]\<rparr>"
  by (simp add: BitSet_Set_def word_le_nat_alt)

lemma engine0_Test: "bloom_Test engine0 \<lparr>bf_m = 64, bf_k = 2, bf_b = \<lparr>blength = 64, bset = [0]\<rparr>\<rparr> ''x'' = Return False"
  by (simp add: bloom_Test_def upt_2 engine0_location_0 Test_0_1)

lemma engine0_TestOrAdd:
  "TestOrAdd engine0 \<lparr>bf_m = 64, bf_k = 2, bf_b = \<lparr>blength = 64, bset = [0]\<rparr>\<rparr> ''x''
     = Return (False, \<lparr>bf_m = 64, bf_k = 2, bf_b = \<lparr>blength = 64, bset = [66]\<rparr>\<rparr>)"
  by (simp add: TestOrAdd_def upt_2 engine0_location_0 engine0_location_1
      Test_0_1 Set_0_1 Test_2_6 Set_2_6)

section \<open>The Bloom record: invariant, round trip and \<open>BfAdd\<close>\<close>

lemma BitSet_New_ok: "BitSet_ok (BitSet_New n)"
  by (simp add: BitSet_ok_def BitSet_New_def)

lemma NewWithEstimates_ok: "BitSet_ok (bf_b (NewWithEstimates E n p))"
  by (simp add: NewWithEstimates_def bloom_New_def BitSet_New_ok split: prod.splits)

lemma extendSet_ok: "BitSet_ok (extendSet b i)"
  by (simp add: BitSet_ok_def extendSet_def Let_def)

lemma BitSet_Set_ok: "BitSet_ok b \<Longrightarrow> BitSet_Set b i = Return b' \<Longrightarrow> BitSet_ok b'"
  using extendSet_ok [of b i]
  by (auto simp: BitSet_Set_def Let_def BitSet_ok_def split: if_splits)

lemma TestOrAdd_loop_ok:
  "BitSet_ok (bf_b f) \<Longrightarrow> TestOrAdd_loop h js p f = Return (p', f') \<Longrightarrow> BitSet_ok (bf_b f')"
proof (induction js arbitrary: p f)
  case Nil
  then show ?case by simp
next
  case (Cons i js)
  from Cons.prems(2) obtain l where l: "bloom_location f h (of_nat i) = Return l"
    by (cases "bloom_location f h (of_nat i)") simp_all
  from Cons.prems(2) l obtain t0 where t0: "BitSet_Test (bf_b f) l = Return t0"
    by (cases "BitSet_Test (bf_b f) l") simp_all
  show ?case
  proof (cases t0)
    case True
    with Cons.prems l t0 have "TestOrAdd_loop h js p f = Return (p', f')" by simp
    from Cons.IH [OF Cons.prems(1) this] show ?thesis .
  next
    case False
    with Cons.prems l t0 obtain b' where s: "BitSet_Set (bf_b f) l = Return b'"
      and r: "TestOrAdd_loop h js False (f\<lparr>bf_b := b'\<rparr>) = Return (p', f')"
      by (cases "BitSet_Set (bf_b f) l") simp_all
    from BitSet_Set_ok [OF Cons.prems(1) s] have "BitSet_ok (bf_b (f\<lparr>bf_b := b'\<rparr>))" by simp
    from Cons.IH [OF this r] show ?thesis .
  qed
qed

lemma TestOrAdd_ok:
  "BitSet_ok (bf_b f) \<Longrightarrow> TestOrAdd E f data = Return (p, f') \<Longrightarrow> BitSet_ok (bf_b f')"
  unfolding TestOrAdd_def by (rule TestOrAdd_loop_ok)

lemma length_Uint64s_BE [simp]: "length (Uint64s_BE n bs) = n"
  by (induction n arbitrary: bs) auto

lemma BitSet_ReadFrom_ok: "BitSet_ReadFrom r = (Inr b, r') \<Longrightarrow> BitSet_ok b"
  by (auto simp: BitSet_ReadFrom_def BitSet_ok_def Let_def split: prod.splits sum.splits)

lemma bloomFromBytes_ok: "bloomFromBytes E blob = Inr (f, cap, er) \<Longrightarrow> BitSet_ok (bf_b f)"
  by (auto simp: bloomFromBytes_def bloom_ReadFrom_def Let_def
      split: prod.splits sum.splits dest: BitSet_ReadFrom_ok)

lemma bloomFromBytes_empty: "bloomFromBytes E [] = Inl EOF"
  by (simp add: bloomFromBytes_def binary_Read_uint_def binary_Read_float64_LE_def
      io_ReadFull_def bloom_ReadFrom_def binary_Read_uint64_BE_def)

text \<open>
  Claim C2. What holds of the codec: for every filter whose bit set is well formed (as
  every filter built by \<open>NewWithEstimates\<close>, \<open>TestOrAdd\<close> or a decode is), encoding
  succeeds, and decoding the blob gives back the very same filter and the same error rate,
  but the capacity 0 whatever capacity was passed to the encoder: \<open>binary.Write\<close> and
  \<open>binary.Read\<close> reject Go's \<open>uint\<close>, and both errors are dropped.
\<close>

theorem bloom_roundtrip_capacity_zero:
  assumes "BitSet_ok (bf_b f)"
  shows "\<exists>blob. bloomToBytes f cap er = Inr blob \<and> bloomFromBytes E blob = Inr (f, 0, er)"
  using assms bloomFromBytes_bloomToBytes [of f cap er _ E]
  by (simp add: BitSet_ok_def bloomToBytes_eq)

text \<open>
  A filter created with capacity 50000 and error rate 0.01 comes back with capacity 0.
\<close>

theorem bloom_roundtrip_capacity_zero_witness:
  "BitSet_ok (bf_b (NewWithEstimates engine0 50000 0x3F847AE147AE147B))
   \<and> (\<exists>blob. bloomToBytes (NewWithEstimates engine0 50000 0x3F847AE147AE147B) 50000 0x3F847AE147AE147B = Inr blob
        \<and> bloomFromBytes engine0 blob
            = Inr (\<lparr>bf_m = 64, bf_k = 2, bf_b = \<lparr>blength = 64, bset = [0]\<rparr>\<rparr>, 0, 0x3F847AE147AE147B))"
  using bloom_roundtrip_capacity_zero
    [of "NewWithEstimates engine0 50000 0x3F847AE147AE147B" 50000 "0x3F847AE147AE147B" engine0]
    NewWithEstimates_ok [of engine0 50000 "0x3F847AE147AE147B"]
  by (simp add: engine0_New)

text \<open>
  Claim C1. What \<open>BfAdd\<close> replies: for a stored record that decodes to a filter \<open>f\<close> and a
  member on which \<open>TestOrAdd\<close> returns, the reply is the integer 1 when the member tested
  present in \<open>f\<close> before the call, and 0 when it did not (when it was newly added): the
  variable named \<open>added\<close> receives the result of the membership test.
\<close>

theorem BfAdd_replies_whether_already_present:
  assumes "ArgN c = 2" and "txn_Get db (Arg c 0) = Inr blob"
    and "bloomFromBytes E blob = Inr (f, cap, er)"
    and "TestOrAdd E f (Arg c 1) = Return (p, f')"
  shows "bloom_Test E f (Arg c 1) = Return p
         \<and> (\<exists>db'. BfAdd E db c = Return ([AppendInt (if p then 1 else 0)], db'))"
proof -
  obtain blob' where b: "bloomToBytes f' cap er = Inr blob'"
    by (simp add: bloomToBytes_eq)
  from assms(3,4) b have "BfAdd_fn E c blob False = Return ((blob', None), p)"
    by (simp add: BfAdd_fn_def)
  with assms(2) have "UpdateFunc db (Arg c 0) (BfAdd_fn E c) False
      = Return ((None, db\<lparr>kv := upsert (Arg c 0) blob' (kv db)\<rparr>), p)"
    by (rule UpdateFunc_present [where fn = "BfAdd_fn E c"])
  with assms(1)
  have "BfAdd E db c = Return ([AppendInt (if p then 1 else 0)], db\<lparr>kv := upsert (Arg c 0) blob' (kv db)\<rparr>)"
    by (simp add: BfAdd_def)
  with TestOrAdd_bloom_Test [OF assms(4)] show ?thesis by blast
qed

text \<open>
  On the filter that \<open>BF.INSERT bloom\<close> has just created, the member \<open>x\<close> is absent, and
  the first \<open>BF.ADD bloom x\<close> replies 0.
\<close>

theorem BfAdd_replies_whether_already_present_witness:
  "\<exists>db blob.
     BfInsert engine0 db0 \<lparr>Name = ''bf.insert'', Args = [''bloom'']\<rparr> = Return ([AppendArrayLen 1, AppendInt 1], db)
   \<and> ArgN \<lparr>Name = ''bf.add'', Args = [''bloom'', ''x'']\<rparr> = 2
   \<and> txn_Get db ''bloom'' = Inr blob
   \<and> bloomFromBytes engine0 blob
        = Inr (\<lparr>bf_m = 64, bf_k = 2, bf_b = \<lparr>blength = 64, bset = [0]\<rparr>\<rparr>, 0, 0x3F847AE147AE147B)
   \<and> TestOrAdd engine0 \<lparr>bf_m = 64, bf_k = 2, bf_b = \<lparr>blength = 64, bset = [0]\<rparr>\<rparr> ''x''
        = Return (False, \<lparr>bf_m = 64, bf_k = 2, bf_b = \<lparr>blength = 64, bset = [66]\<rparr>\<rparr>)
   \<and> bloom_Test engine0 \<lparr>bf_m = 64, bf_k = 2, bf_b = \<lparr>blength = 64, bset = [0]\<rparr>\<rparr> ''x'' = Return False
   \<and> (\<exists>db'. BfAdd engine0 db \<lparr>Name = ''bf.add'', Args = [''bloom'', ''x'']\<rparr> = Return ([AppendInt 0], db'))"
proof -
  let ?f0 = "\<lparr>bf_m = 64, bf_k = 2, bf_b = \<lparr>blength = 64, bset = [0]\<rparr>\<rparr>"
  let ?f1 = "\<lparr>bf_m = 64, bf_k = 2, bf_b = \<lparr>blength = 64, bset = [66]\<rparr>\<rparr>"
  let ?add = "\<lparr>Name = ''bf.add'', Args = [''bloom'', ''x'']\<rparr>"
  obtain blob where blob: "bloomToBytes ?f0 1000000 0x3F847AE147AE147B = Inr blob"
    by (simp add: bloomToBytes_eq)
  let ?db = "\<lparr>kv = [(''bloom'', blob)], faults = []\<rparr>"
  have i: "BfInsert engine0 db0 \<lparr>Name = ''bf.insert'', Args = [''bloom'']\<rparr>
             = Return ([AppendArrayLen 1, AppendInt 1], ?db)"
    by (simp add: BfInsert_def BfInsert_switch_def ArgN_def Arg_def engine0_New blob
        InsertExclusive_def db_Update_def txn_Get_def txn_Set_def db0_def)
  have n: "ArgN ?add = 2" by (simp add: ArgN_def)
  have g: "txn_Get ?db (Arg ?add 0) = Inr blob" by (simp add: txn_Get_def Arg_def)
  have d: "bloomFromBytes engine0 blob = Inr (?f0, 0, 0x3F847AE147AE147B)"
    by (rule bloomFromBytes_bloomToBytes [OF _ blob]) (simp add: wordsNeeded_64)
  have t: "TestOrAdd engine0 ?f0 (Arg ?add 1) = Return (False, ?f1)"
    by (simp add: Arg_def engine0_TestOrAdd)
  from BfAdd_replies_whether_already_present [OF n g d t] i n g d t
  show ?thesis by (simp add: Arg_def)
qed

text \<open>
  Claim C4. For a key absent from the store, each of \<open>BF.ADD\<close>, \<open>BF.EXISTS\<close>, \<open>BF.CARD\<close>,
  \<open>CF.ADD\<close>, \<open>CF.EXISTS\<close> and \<open>CF.CARD\<close> replies with exactly one error reply and leaves
  the store as it was, for every argument list whose first argument is that key (a wrong
  argument count is an error reply as well). \<open>BF.CARD\<close> and \<open>CF.CARD\<close> drop the error of
  \<open>Get\<close>; their error reply is the decoder's, on the nil value.
\<close>

theorem filter_commands_on_absent_key:
  assumes "txn_Get db (Arg c 0) = Inl ErrKeyNotFound"
  shows "(\<exists>e. BfAdd E db c = Return ([AppendError e], db))
       \<and> (\<exists>e. BfExists E db c = Return ([AppendError e], db))
       \<and> (\<exists>e. BfCard E db c = Return ([AppendError e], db))
       \<and> (\<exists>e. CfAdd E db c = Return ([AppendError e], db))
       \<and> (\<exists>e. CfExists E db c = Return ([AppendError e], db))
       \<and> (\<exists>e. CfCard E db c = Return ([AppendError e], db))"
proof -
  have u: "UpdateFunc db (Arg c 0) fn False = Return ((Some ErrKeyNotFound, db), False)" for fn :: "bytes \<Rightarrow> bool \<Rightarrow> ((bytes \<times> error option) \<times> bool) outcome"
    using assms by (simp add: UpdateFunc_def db_Update_closure_def db_Update_def)
  have g: "Get db (Arg c 0) = Inl ErrKeyNotFound"
    using assms by (simp add: Get_def)
  have 1: "\<exists>e. BfAdd E db c = Return ([AppendError e], db)"
    by (simp add: BfAdd_def u)
  have 2: "\<exists>e. BfExists E db c = Return ([AppendError e], db)"
    by (simp add: BfExists_def g)
  have 3: "\<exists>e. BfCard E db c = Return ([AppendError e], db)"
    by (simp add: BfCard_def g bloomFromBytes_empty)
  have 4: "\<exists>e. CfAdd E db c = Return ([AppendError e], db)"
    by (simp add: CfAdd_def u)
  have 5: "\<exists>e. CfExists E db c = Return ([AppendError e], db)"
    by (simp add: CfExists_def g)
  have 6: "\<exists>e. CfCard E db c = Return ([AppendError e], db)"
    by (simp add: CfCard_def g cuckoo_Decode_def)
  from 1 2 3 4 5 6 show ?thesis by blast
qed


theorem filter_commands_on_absent_key_witness:
  "txn_Get db0 (Arg \<lparr>Name = ''cf.card'', Args = [''nokey'']\<rparr> 0) = Inl ErrKeyNotFound
   \<and> CfCard engine0 db0 \<lparr>Name = ''cf.card'', Args = [''nokey'']\<rparr>
        = Return ([AppendError (ErrorText CuckooEmpty)], db0)
   \<and> BfCard engine0 db0 \<lparr>Name = ''cf.card'', Args = [''nokey'']\<rparr>
        = Return ([AppendError (ErrorText EOF)], db0)
   \<and> (\<exists>e. BfAdd engine0 db0 \<lparr>Name = ''cf.card'', Args = [''nokey'']\<rparr> = Return ([AppendError e], db0))"
proof -
  have g: "txn_Get db0 (Arg \<lparr>Name = ''cf.card'', Args = [''nokey'']\<rparr> 0) = Inl ErrKeyNotFound"
    by (simp add: txn_Get_def Arg_def db0_def)
  have c: "CfCard engine0 db0 \<lparr>Name = ''cf.card'', Args = [''nokey'']\<rparr>
        = Return ([AppendError (ErrorText CuckooEmpty)], db0)"
    using g by (simp add: CfCard_def ArgN_def Get_def cuckoo_Decode_def)
  have b: "BfCard engine0 db0 \<lparr>Name = ''cf.card'', Args = [''nokey'']\<rparr>
        = Return ([AppendError (ErrorText EOF)], db0)"
    using g by (simp add: BfCard_def ArgN_def Get_def bloomFromBytes_empty)
  from filter_commands_on_absent_key [OF g, of engine0] g c b show ?thesis by simp
qed

lemma BfInsert_switch_default:
  "7 \<le> ArgN c \<Longrightarrow> BfInsert_switch E c = Inr ([AppendError (UnsupportedArgs (Args c))], 0, 0)"
  by (simp add: BfInsert_switch_def)

text \<open>
  Claim C6. What \<open>BfInsert\<close> does with 7 or more arguments: the \<open>default\<close> branch of its
  switch appends an error and does not return, so the handler goes on to create the
  record and appends again: a second error, or the array reply of a successful insert.
  It never emits exactly one reply there.
\<close>

theorem BfInsert_unsupported_count_emits_twice:
  assumes "7 \<le> ArgN c"
  shows "\<exists>r rs db'. BfInsert E db c = Return (AppendError (UnsupportedArgs (Args c)) # r # rs, db')"
proof -
  obtain blob where blob: "bloomToBytes (NewWithEstimates E 0 0) 0 0 = Inr blob"
    by (simp add: bloomToBytes_eq)
  obtain err db' where ie: "InsertExclusive db (Arg c 0) blob = (err, db')"
    by (cases "InsertExclusive db (Arg c 0) blob")
  from assms have a: "\<not> ArgN c < 1" by simp
  show ?thesis
  proof (cases err)
    case None
    with a blob ie BfInsert_switch_default [OF assms, of E]
    have "BfInsert E db c
            = Return ([AppendError (UnsupportedArgs (Args c)), AppendArrayLen 1, AppendInt 1], db')"
      by (simp add: BfInsert_def)
    then show ?thesis by blast
  next
    case (Some e)
    with a blob ie BfInsert_switch_default [OF assms, of E]
    have "BfInsert E db c
            = Return ([AppendError (UnsupportedArgs (Args c)), AppendError (ErrorText e)], db')"
      by (simp add: BfInsert_def)
    then show ?thesis by blast
  qed
qed

theorem BfInsert_unsupported_count_emits_twice_witness:
  "7 \<le> ArgN \<lparr>Name = ''bf.insert'', Args = [''k'', ''a'', ''b'', ''c'', ''d'', ''e'', ''f'']\<rparr>
   \<and> (\<exists>db'. BfInsert engine0 db0 \<lparr>Name = ''bf.insert'', Args = [''k'', ''a'', ''b'', ''c'', ''d'', ''e'', ''f'']\<rparr>
        = Return ([AppendError (UnsupportedArgs [''k'', ''a'', ''b'', ''c'', ''d'', ''e'', ''f'']),
                   AppendArrayLen 1, AppendInt 1], db'))"
proof -
  let ?c = "\<lparr>Name = ''bf.insert'', Args = [''k'', ''a'', ''b'', ''c'', ''d'', ''e'', ''f'']\<rparr>"
  have a: "7 \<le> ArgN ?c" by (simp add: ArgN_def)
  have n: "\<And>rs db'. BfInsert engine0 db0 ?c = Return (rs, db')
             \<Longrightarrow> rs = [AppendError (UnsupportedArgs (Args ?c)), AppendArrayLen 1, AppendInt 1]"
    by (simp add: BfInsert_def BfInsert_switch_def ArgN_def Arg_def bloomToBytes_eq Let_def
        InsertExclusive_def db_Update_def txn_Get_def txn_Set_def db0_def)
  from BfInsert_unsupported_count_emits_twice [OF a, of engine0 db0] obtain r rs db'
    where "BfInsert engine0 db0 ?c = Return (AppendError (UnsupportedArgs (Args ?c)) # r # rs, db')"
    by blast
  with n [OF this] a show ?thesis by auto
qed

text \<open>
  Claim C7. The command table of \<open>run\<close> has no entry for \<open>cf.del\<close>: the frontend answers
  \<open>CF.DEL key member\<close> with its unknown-command error and the store is not touched.
\<close>

theorem cf_del_is_not_registered:
  "map_of run_handlers ''cf.del'' = None
   \<and> serve E db \<lparr>Name = ''cf.del'', Args = [key, member]\<rparr>
        = Return ([AppendError (UnknownCommand ''cf.del'')], db)
   \<and> serve E db \<lparr>Name = ''CF.DEL'', Args = [key, member]\<rparr>
        = Return ([AppendError (UnknownCommand ''CF.DEL'')], db)"
  by (simp add: serve_def run_handlers_def ToLower_def char_of_def bit_Suc_0_iff)

section \<open>Option tokens\<close>

text \<open>
  Claim C8, as stated, fails: the token \<open>Capacity\<close> is rejected by \<open>BF.INSERT\<close> and by
  \<open>CF.INSERT\<close>, where \<open>CAPACITY\<close> with the same value is accepted.
\<close>

theorem capacity_token_mixed_case_rejected:
  "BfInsert engine0 db0 \<lparr>Name = ''bf.insert'', Args = [''bloom'', ''Capacity'', ''100'']\<rparr>
     = Return ([AppendError (WrongNumberOfArgs ''bf.insert'')], db0)
   \<and> (case BfInsert engine0 db0 \<lparr>Name = ''bf.insert'', Args = [''bloom'', ''CAPACITY'', ''100'']\<rparr> of
        Return (w, db') \<Rightarrow> w | Panic p \<Rightarrow> []) = [AppendArrayLen 1, AppendInt 1]
   \<and> CfInsert engine0 db0 \<lparr>Name = ''cf.insert'', Args = [''cuckoo'', ''Capacity'', ''16'']\<rparr>
     = Return ([AppendError (WrongNumberOfArgs ''cf.insert'')], db0)
   \<and> (case CfInsert engine0 db0 \<lparr>Name = ''cf.insert'', Args = [''cuckoo'', ''CAPACITY'', ''16'']\<rparr> of
        Return (w, db') \<Rightarrow> w | Panic p \<Rightarrow> []) = [AppendOK]"
  by (simp add: BfInsert_def BfInsert_switch_def CfInsert_def ArgN_def Arg_def ParseUint_def Let_def
      bloomToBytes_eq InsertExclusive_def db_Update_def txn_Get_def txn_Set_def db0_def)

lemma BfInsert_3:
  assumes "ArgN c = 3"
  shows "BfInsert E db c = Return ([AppendError (WrongNumberOfArgs (Name c))], db)
         \<longleftrightarrow> Arg c 1 \<noteq> ''capacity'' \<and> Arg c 1 \<noteq> ''CAPACITY''"
  using assms
  by (auto simp: BfInsert_def BfInsert_switch_def bloomToBytes_eq Let_def
      split: sum.splits prod.splits option.splits)

lemma CfInsert_3:
  assumes "ArgN c = 3"
  shows "CfInsert E db c = Return ([AppendError (WrongNumberOfArgs (Name c))], db)
         \<longleftrightarrow> Arg c 1 \<noteq> ''capacity'' \<and> Arg c 1 \<noteq> ''CAPACITY''"
  using assms
  by (auto simp: CfInsert_def Let_def split: sum.splits prod.splits option.splits)

lemma BfInsert_5_6:
  assumes "ArgN c = 5 \<or> ArgN c = 6"
  shows "BfInsert E db c = Return ([AppendError (WrongNumberOfArgs (Name c))], db)
         \<longleftrightarrow> (Arg c 1 \<noteq> ''capacity'' \<and> Arg c 1 \<noteq> ''CAPACITY'')
             \<or> ((\<exists>cap. ParseUint (Arg c 2) = Inr cap) \<and> Arg c 3 \<noteq> ''error'' \<and> Arg c 3 \<noteq> ''ERROR'')"
  using assms
  by (auto simp: BfInsert_def BfInsert_switch_def bloomToBytes_eq Let_def
      split: sum.splits prod.splits option.splits)

lemma BfInsert_parse_error:
  assumes "ArgN c = 3 \<or> ArgN c = 5 \<or> ArgN c = 6"
    and "Arg c 1 = ''capacity'' \<or> Arg c 1 = ''CAPACITY''"
    and "ParseUint (Arg c 2) = Inl e"
  shows "BfInsert E db c = Return ([AppendError (ErrorText e)], db)"
  using assms by (auto simp: BfInsert_def BfInsert_switch_def)

lemma CfInsert_parse_error:
  assumes "ArgN c = 3" and "Arg c 1 = ''capacity'' \<or> Arg c 1 = ''CAPACITY''"
    and "ParseUint (Arg c 2) = Inl e"
  shows "CfInsert E db c = Return ([AppendError (ErrorText e)], db)"
  using assms by (auto simp: CfInsert_def)

lemma BfInsert_spellings_3:
  "BfInsert E db \<lparr>Name = n, Args = [k, ''capacity'', v]\<rparr>
     = BfInsert E db \<lparr>Name = n, Args = [k, ''CAPACITY'', v]\<rparr>"
  by (simp add: BfInsert_def BfInsert_switch_def ArgN_def Arg_def Let_def
      split: sum.splits prod.splits)

lemma CfInsert_spellings_3:
  "CfInsert E db \<lparr>Name = n, Args = [k, ''capacity'', v]\<rparr>
     = CfInsert E db \<lparr>Name = n, Args = [k, ''CAPACITY'', v]\<rparr>"
  by (simp add: CfInsert_def ArgN_def Arg_def Let_def split: sum.splits prod.splits)

lemma BfInsert_spellings_5:
  "\<forall>t1 \<in> {''capacity'', ''CAPACITY''}. \<forall>t2 \<in> {''error'', ''ERROR''}.
     BfInsert E db \<lparr>Name = n, Args = [k, t1, v, t2, r]\<rparr>
       = BfInsert E db \<lparr>Name = n, Args = [k, ''CAPACITY'', v, ''ERROR'', r]\<rparr>"
  by (simp add: BfInsert_def BfInsert_switch_def ArgN_def Arg_def Let_def
      split: sum.splits prod.splits)

lemma BfInsert_spellings_6:
  "\<forall>t1 \<in> {''capacity'', ''CAPACITY''}. \<forall>t2 \<in> {''error'', ''ERROR''}.
     BfInsert E db \<lparr>Name = n, Args = [k, t1, v, t2, r, x]\<rparr>
       = BfInsert E db \<lparr>Name = n, Args = [k, ''CAPACITY'', v, ''ERROR'', r, x]\<rparr>"
  by (simp add: BfInsert_def BfInsert_switch_def ArgN_def Arg_def Let_def
      split: sum.splits prod.splits)

text \<open>
  Claim C8, amended, for \<open>BF.INSERT\<close> with 3, 5 or 6 arguments and \<open>CF.INSERT\<close> with
  3 arguments. With 3 arguments the command is answered with the wrong-number-of-arguments
  error, the store untouched, exactly when the second argument is neither \<open>capacity\<close>
  nor \<open>CAPACITY\<close>, and these two spellings give the same outcome. With 5 or
  6 arguments \<open>BF.INSERT\<close> gives that answer exactly when the capacity token has another
  letter-casing, or the capacity value parses and the fourth argument is neither \<open>error\<close>
  nor \<open>ERROR\<close>; all four pairs of accepted spellings give the same outcome. When the
  capacity token is accepted and the capacity value does not parse, the reply is the parse
  error and the store is untouched, whatever the fourth argument.
\<close>

theorem option_tokens_two_spellings:
  "(ArgN c = 3 \<longrightarrow>
      (BfInsert E db c = Return ([AppendError (WrongNumberOfArgs (Name c))], db)
         \<longleftrightarrow> Arg c 1 \<noteq> ''capacity'' \<and> Arg c 1 \<noteq> ''CAPACITY''))
   \<and> (ArgN c = 3 \<longrightarrow>
      (CfInsert E db c = Return ([AppendError (WrongNumberOfArgs (Name c))], db)
         \<longleftrightarrow> Arg c 1 \<noteq> ''capacity'' \<and> Arg c 1 \<noteq> ''CAPACITY''))
   \<and> (ArgN c = 5 \<or> ArgN c = 6 \<longrightarrow>
      (BfInsert E db c = Return ([AppendError (WrongNumberOfArgs (Name c))], db)
         \<longleftrightarrow> (Arg c 1 \<noteq> ''capacity'' \<and> Arg c 1 \<noteq> ''CAPACITY'')
             \<or> ((\<exists>cap. ParseUint (Arg c 2) = Inr cap)
                 \<and> Arg c 3 \<noteq> ''error'' \<and> Arg c 3 \<noteq> ''ERROR'')))
   \<and> (ArgN c = 3 \<or> ArgN c = 5 \<or> ArgN c = 6 \<longrightarrow>
        Arg c 1 = ''capacity'' \<or> Arg c 1 = ''CAPACITY'' \<longrightarrow> ParseUint (Arg c 2) = Inl e \<longrightarrow>
      BfInsert E db c = Return ([AppendError (ErrorText e)], db))
   \<and> (ArgN c = 3 \<longrightarrow>
        Arg c 1 = ''capacity'' \<or> Arg c 1 = ''CAPACITY'' \<longrightarrow> ParseUint (Arg c 2) = Inl e \<longrightarrow>
      CfInsert E db c = Return ([AppendError (ErrorText e)], db))
   \<and> BfInsert E db \<lparr>Name = n, Args = [k, ''capacity'', v]\<rparr>
       = BfInsert E db \<lparr>Name = n, Args = [k, ''CAPACITY'', v]\<rparr>
   \<and> CfInsert E db \<lparr>Name = n, Args = [k, ''capacity'', v]\<rparr>
       = CfInsert E db \<lparr>Name = n, Args = [k, ''CAPACITY'', v]\<rparr>
   \<and> (\<forall>t1 \<in> {''capacity'', ''CAPACITY''}. \<forall>t2 \<in> {''error'', ''ERROR''}.
        BfInsert E db \<lparr>Name = n, Args = [k, t1, v, t2, r]\<rparr>
          = BfInsert E db \<lparr>Name = n, Args = [k, ''CAPACITY'', v, ''ERROR'', r]\<rparr>)
   \<and> (\<forall>t1 \<in> {''capacity'', ''CAPACITY''}. \<forall>t2 \<in> {''error'', ''ERROR''}.
        BfInsert E db \<lparr>Name = n, Args = [k, t1, v, t2, r, x]\<rparr>
          = BfInsert E db \<lparr>Name = n, Args = [k, ''CAPACITY'', v, ''ERROR'', r, x]\<rparr>)"
  using BfInsert_3 [of c E db] CfInsert_3 [of c E db] BfInsert_5_6 [of c E db]
    BfInsert_parse_error [of c e E db] CfInsert_parse_error [of c e E db]
    BfInsert_spellings_3 [of E db n k v] CfInsert_spellings_3 [of E db n k v]
    BfInsert_spellings_5 [of E db n k v r] BfInsert_spellings_6 [of E db n k v r x]
  by blast

text \<open>
  Instances: \<open>Capacity\<close> is rejected by both handlers and \<open>CAPACITY\<close> is not; \<open>Error\<close> is
  rejected after a capacity that parses; after a capacity that does not parse the reply is
  the parse error, with \<open>Error\<close> as the fourth argument too.
\<close>

theorem option_tokens_two_spellings_witness:
  "ArgN \<lparr>Name = ''bf.insert'', Args = [''k'', ''Capacity'', ''100'']\<rparr> = 3
   \<and> Arg \<lparr>Name = ''bf.insert'', Args = [''k'', ''Capacity'', ''100'']\<rparr> 1 \<noteq> ''capacity''
   \<and> Arg \<lparr>Name = ''bf.insert'', Args = [''k'', ''Capacity'', ''100'']\<rparr> 1 \<noteq> ''CAPACITY''
   \<and> BfInsert engine0 db0 \<lparr>Name = ''bf.insert'', Args = [''k'', ''Capacity'', ''100'']\<rparr>
        = Return ([AppendError (WrongNumberOfArgs ''bf.insert'')], db0)
   \<and> CfInsert engine0 db0 \<lparr>Name = ''bf.insert'', Args = [''k'', ''Capacity'', ''100'']\<rparr>
        = Return ([AppendError (WrongNumberOfArgs ''bf.insert'')], db0)
   \<and> ArgN \<lparr>Name = ''bf.insert'', Args = [''k'', ''CAPACITY'', ''100'']\<rparr> = 3
   \<and> Arg \<lparr>Name = ''bf.insert'', Args = [''k'', ''CAPACITY'', ''100'']\<rparr> 1 = ''CAPACITY''
   \<and> BfInsert engine0 db0 \<lparr>Name = ''bf.insert'', Args = [''k'', ''CAPACITY'', ''100'']\<rparr>
        \<noteq> Return ([AppendError (WrongNumberOfArgs ''bf.insert'')], db0)
   \<and> CfInsert engine0 db0 \<lparr>Name = ''bf.insert'', Args = [''k'', ''CAPACITY'', ''100'']\<rparr>
        \<noteq> Return ([AppendError (WrongNumberOfArgs ''bf.insert'')], db0)
   \<and> ArgN \<lparr>Name = ''bf.insert'', Args = [''k'', ''capacity'', ''100'', ''Error'', ''0.01'']\<rparr> = 5
   \<and> ParseUint (Arg \<lparr>Name = ''bf.insert'', Args = [''k'', ''capacity'', ''100'', ''Error'', ''0.01'']\<rparr> 2) = Inr 100
   \<and> Arg \<lparr>Name = ''bf.insert'', Args = [''k'', ''capacity'', ''100'', ''Error'', ''0.01'']\<rparr> 3 \<noteq> ''error''
   \<and> Arg \<lparr>Name = ''bf.insert'', Args = [''k'', ''capacity'', ''100'', ''Error'', ''0.01'']\<rparr> 3 \<noteq> ''ERROR''
   \<and> BfInsert engine0 db0 \<lparr>Name = ''bf.insert'', Args = [''k'', ''capacity'', ''100'', ''Error'', ''0.01'']\<rparr>
        = Return ([AppendError (WrongNumberOfArgs ''bf.insert'')], db0)
   \<and> ArgN \<lparr>Name = ''bf.insert'', Args = [''k'', ''capacity'', ''abc'', ''Error'', ''0.01'']\<rparr> = 5
   \<and> Arg \<lparr>Name = ''bf.insert'', Args = [''k'', ''capacity'', ''abc'', ''Error'', ''0.01'']\<rparr> 1 = ''capacity''
   \<and> ParseUint (Arg \<lparr>Name = ''bf.insert'', Args = [''k'', ''capacity'', ''abc'', ''Error'', ''0.01'']\<rparr> 2)
        = Inl (ErrSyntax ''abc'')
   \<and> BfInsert engine0 db0 \<lparr>Name = ''bf.insert'', Args = [''k'', ''capacity'', ''abc'', ''Error'', ''0.01'']\<rparr>
        = Return ([AppendError (ErrorText (ErrSyntax ''abc''))], db0)
   \<and> ArgN \<lparr>Name = ''cf.insert'', Args = [''k'', ''capacity'', ''abc'']\<rparr> = 3
   \<and> CfInsert engine0 db0 \<lparr>Name = ''cf.insert'', Args = [''k'', ''capacity'', ''abc'']\<rparr>
        = Return ([AppendError (ErrorText (ErrSyntax ''abc''))], db0)
   \<and> ''capacity'' \<in> {''capacity'', ''CAPACITY''} \<and> ''error'' \<in> {''error'', ''ERROR''}
   \<and> BfInsert engine0 db0 \<lparr>Name = ''bf.insert'', Args = [''k'', ''capacity'', ''100'', ''error'', ''0.01'']\<rparr>
        = BfInsert engine0 db0 \<lparr>Name = ''bf.insert'', Args = [''k'', ''CAPACITY'', ''100'', ''ERROR'', ''0.01'']\<rparr>
   \<and> BfInsert engine0 db0 \<lparr>Name = ''bf.insert'', Args = [''k'', ''capacity'', ''100'', ''error'', ''0.01'', ''ITEMS'']\<rparr>
        = BfInsert engine0 db0 \<lparr>Name = ''bf.insert'', Args = [''k'', ''CAPACITY'', ''100'', ''ERROR'', ''0.01'', ''ITEMS'']\<rparr>"
proof -
  let ?c1 = "\<lparr>Name = ''bf.insert'', Args = [''k'', ''Capacity'', ''100'']\<rparr>"
  let ?c2 = "\<lparr>Name = ''bf.insert'', Args = [''k'', ''CAPACITY'', ''100'']\<rparr>"
  let ?c3 = "\<lparr>Name = ''bf.insert'', Args = [''k'', ''capacity'', ''100'', ''Error'', ''0.01'']\<rparr>"
  let ?c4 = "\<lparr>Name = ''bf.insert'', Args = [''k'', ''capacity'', ''abc'', ''Error'', ''0.01'']\<rparr>"
  let ?c5 = "\<lparr>Name = ''cf.insert'', Args = [''k'', ''capacity'', ''abc'']\<rparr>"
  have a1: "ArgN ?c1 = 3" "Arg ?c1 1 \<noteq> ''capacity''" "Arg ?c1 1 \<noteq> ''CAPACITY''"
    by (simp_all add: ArgN_def Arg_def)
  have a2: "ArgN ?c2 = 3" "Arg ?c2 1 = ''CAPACITY''"
    by (simp_all add: ArgN_def Arg_def)
  have a3: "ArgN ?c3 = 5" "Arg ?c3 1 = ''capacity''" "ParseUint (Arg ?c3 2) = Inr 100"
    "Arg ?c3 3 \<noteq> ''error''" "Arg ?c3 3 \<noteq> ''ERROR''"
    by (simp_all add: ArgN_def Arg_def ParseUint_def)
  have a4: "ArgN ?c4 = 5" "Arg ?c4 1 = ''capacity''" "ParseUint (Arg ?c4 2) = Inl (ErrSyntax ''abc'')"
    by (simp_all add: ArgN_def Arg_def ParseUint_def)
  have a5: "ArgN ?c5 = 3" "Arg ?c5 1 = ''capacity''" "ParseUint (Arg ?c5 2) = Inl (ErrSyntax ''abc'')"
    by (simp_all add: ArgN_def Arg_def ParseUint_def)
  note t1 = option_tokens_two_spellings [where c = ?c1 and E = engine0 and db = db0]
  note t2 = option_tokens_two_spellings [where c = ?c2 and E = engine0 and db = db0]
  note t3 = option_tokens_two_spellings
      [where c = ?c3 and E = engine0 and db = db0 and n = "''bf.insert''"
         and k = "''k''" and v = "''100''" and r = "''0.01''" and x = "''ITEMS''"]
  note t4 = option_tokens_two_spellings
      [where c = ?c4 and E = engine0 and db = db0 and e = "ErrSyntax ''abc''"]
  note t5 = option_tokens_two_spellings
      [where c = ?c5 and E = engine0 and db = db0 and e = "ErrSyntax ''abc''"]
  from t1 a1 have b1: "BfInsert engine0 db0 ?c1 = Return ([AppendError (WrongNumberOfArgs (Name ?c1))], db0)"
    and b2: "CfInsert engine0 db0 ?c1 = Return ([AppendError (WrongNumberOfArgs (Name ?c1))], db0)"
    by blast+
  from t2 a2 have b3: "BfInsert engine0 db0 ?c2 \<noteq> Return ([AppendError (WrongNumberOfArgs (Name ?c2))], db0)"
    and b4: "CfInsert engine0 db0 ?c2 \<noteq> Return ([AppendError (WrongNumberOfArgs (Name ?c2))], db0)"
    by blast+
  from t3 a3 have b5: "BfInsert engine0 db0 ?c3 = Return ([AppendError (WrongNumberOfArgs (Name ?c3))], db0)"
    by blast
  from t4 a4 have b6: "BfInsert engine0 db0 ?c4 = Return ([AppendError (ErrorText (ErrSyntax ''abc''))], db0)"
    by blast
  from t5 a5 have b7: "CfInsert engine0 db0 ?c5 = Return ([AppendError (ErrorText (ErrSyntax ''abc''))], db0)"
    by blast
  from t3 have b8: "BfInsert engine0 db0 \<lparr>Name = ''bf.insert'', Args = [''k'', ''capacity'', ''100'', ''error'', ''0.01'']\<rparr>
        = BfInsert engine0 db0 \<lparr>Name = ''bf.insert'', Args = [''k'', ''CAPACITY'', ''100'', ''ERROR'', ''0.01'']\<rparr>"
    and b9: "BfInsert engine0 db0 \<lparr>Name = ''bf.insert'', Args = [''k'', ''capacity'', ''100'', ''error'', ''0.01'', ''ITEMS'']\<rparr>
        = BfInsert engine0 db0 \<lparr>Name = ''bf.insert'', Args = [''k'', ''CAPACITY'', ''100'', ''ERROR'', ''0.01'', ''ITEMS'']\<rparr>"
    by blast+
  from a1 a2 a3 a4 a5 b1 b2 b3 b4 b5 b6 b7 b8 b9 show ?thesis by simp
qed

end
